theory Spec2Isabelle
  imports Complex_Main
begin

section \<open>The kernel contract of xuperunion (package kernel)\<close>

text \<open>
  A shallow embedding of the kernel contract: the dispatcher \<open>Run\<close>/\<open>Rollback\<close>, the two
  method tables, the argument validators, the chain-lifecycle operations and the guarded
  parameter updates. A Go function returning \<open>error\<close> becomes a function returning
  \<open>ret\<close> (the returned error, \<open>None\<close> for nil, or a panic) together with the world it
  leaves behind. Collaborators whose code is outside the package (JSON and hex codecs,
  mapstructure, the crypto client, the ledger and utxo constructors, the operating
  system) are the fields of the record \<open>env\<close>.
\<close>

subsection \<open>Errors and results\<close>

datatype error =
    ErrBlockChainExist
  | ErrCreateBlockChain
  | ErrMethodNotImplemented
  | ErrNoEnoughUTXO
  | ErrAddrNotInWhiteList
  | ErrPermissionDenied
  | ErrInvalidChainName
  | ErrorsNew string
  | Errorf string "fmt_arg list"
  | ExternalError string
and fmt_arg = AStr string | AInt int | AErr error

text \<open>What a call of a Go function of result type \<open>error\<close> does: it returns nil
  (\<open>Return None\<close>), returns an error, or panics.\<close>

datatype ret = Return "error option" | Panic

datatype 'a result = Ok 'a | Fail error | Panicked

subsection \<open>Dynamically typed arguments\<close>

type_synonym bytes = string

text \<open>The values of \<open>map[string]interface{}\<close> as the JSON decoder yields them. A JSON
  number is a float64; the finite ones are rationals. \<open>VNil\<close> is the nil interface, which
  is also what indexing a Go map at a missing key yields.\<close>

datatype val =
    VNil
  | VString string
  | VFloat rat
  | VBool bool
  | VList "val list"
  | VMap "(string \<times> val) list"

text \<open>\<open>reflect.TypeOf(v)\<close> as \<open>%v\<close> prints it.\<close>

fun type_name :: "val \<Rightarrow> string" where
  "type_name VNil = ''<nil>''"
| "type_name (VString _) = ''string''"
| "type_name (VFloat _) = ''float64''"
| "type_name (VBool _) = ''bool''"
| "type_name (VList _) = ''[]interface {}''"
| "type_name (VMap _) = ''map[string]interface {}''"

text \<open>The conversion \<open>int64(f)\<close> of a float64: truncation toward zero; outside the
  range of int64 Go leaves the result to the implementation, and amd64 yields the least
  int64.\<close>

definition int64_of_float64 :: "rat \<Rightarrow> int" where
  "int64_of_float64 f =
     (let t = (if f < 0 then - \<lfloor>- f\<rfloor> else \<lfloor>f\<rfloor>)
      in if - (2 ^ 63) \<le> t \<and> t < 2 ^ 63 then t else - (2 ^ 63))"

text \<open>\<open>s, _ := v.(string)\<close>: the zero value when the assertion fails.\<close>

fun as_string :: "val \<Rightarrow> string" where
  "as_string (VString s) = s"
| "as_string _ = []"

subsection \<open>Data\<close>

record pb_GasPrice =
  CpuRate :: int
  MemRate :: int
  DiskRate :: int
  XfeeRate :: int

text \<open>\<open>pb.InvokeRequest\<close>; the argument map of a request is a finite map in Go.\<close>

record pb_InvokeRequest =
  ModuleName :: string
  ContractName :: string
  MethodName :: string
  ReqArgs :: "string \<rightharpoonup> bytes"

text \<open>Modelled from the spec: \<open>pb.Transaction\<close> is declared outside the package; the
  kernel uses its id, its description, the source addresses of its inputs, its outputs
  (receiver and amount) and the buckets of its extended outputs.\<close>

record pb_Transaction =
  Txid :: bytes
  Desc :: bytes
  TxInputs :: "string list"
  TxOutputs :: "(string \<times> int) list"
  TxOutputsExt :: "string list"

text \<open>Modelled from the spec: the transaction's set of source addresses must intersect
  the white list.\<close>

definition FromAddrInList :: "pb_Transaction \<Rightarrow> (string \<Rightarrow> bool) \<Rightarrow> bool" where
  "FromAddrInList tx whiteList = list_ex whiteList (TxInputs tx)"

text \<open>Modelled from the spec: the transaction's payment to the address.\<close>

definition GetAmountByAddress :: "pb_Transaction \<Rightarrow> string \<Rightarrow> int" where
  "GetAmountByAddress tx addr = sum_list (map snd (filter (\<lambda>out. fst out = addr) (TxOutputs tx)))"

text \<open>\<open>contract.TxDesc\<close>, with the carrying transaction it points to.\<close>

record TxDesc =
  Method :: string
  Args :: "string \<Rightarrow> val"
  Tx :: pb_Transaction

record KernelConfig =
  NewChainWhiteList :: "string \<Rightarrow> bool"
  DisableCreateChainWhiteList :: bool
  MinNewChainAmount :: string
  EnableStopChain :: bool
  ModifyBlockAddr :: string

text \<open>\<open>ChainRegister\<close>: what the two calls of the interface answer.\<close>

record ChainRegister =
  RegisterBlockChain :: "string \<Rightarrow> error option"
  UnloadBlockChain :: "string \<Rightarrow> error option"

text \<open>\<open>contract.TxContext\<close>: which of its handles are set (non-nil), and the height of
  the carrying block when there is one. The data behind the handles is in the world.\<close>

record TxContext =
  LedgerObj :: bool
  UtxoMeta :: bool
  Block :: "int option"

text \<open>The \<open>Kernel\<close> struct after \<open>Init\<close>: the configuration is set; \<open>register\<close> and
  \<open>ctx\<close> (the field \<open>context\<close>) are \<open>None\<close> when nil. The logger and the mutex have no
  part in the results.\<close>

record Kernel =
  datapath :: string
  register :: "ChainRegister option"
  ctx :: "TxContext option"
  bcName :: string
  kernelConfig :: KernelConfig

text \<open>Modelled from the spec: \<open>StateMeta\<close>, the store of the chain parameters with a
  getter and a setter for each, is outside the package.\<close>

record StateMeta =
  MaxBlockSize :: int
  IrreversibleSlideWindow :: int
  NewAccountResourceAmount :: int
  GasPrice :: pb_GasPrice
  ForbiddenContract :: pb_InvokeRequest
  ReservedContracts :: "pb_InvokeRequest list"

datatype reg_call = CallRegister string | CallUnload string

text \<open>Everything the kernel can read or change: the paths that exist, the calls made on
  the register, the state meta, the keys held by the state-model cache, and the ledger
  (its transactions, its no-fee flag as \<open>GetNoFee\<close> reads it, and the rewrites it was
  asked to persist).\<close>

record world =
  fs :: "string set"
  register_log :: "reg_call list"
  meta :: StateMeta
  bucket_cache :: "(string \<times> string) set"
  ledger_txs :: "bytes \<Rightarrow> pb_Transaction option"
  ledger_nofee :: bool
  ledger_rewrites :: "(string \<times> string \<times> string \<times> string \<times> int) list"

record crypto_client =
  GetEcdsaPublicKeyFromJsonStr :: "string \<Rightarrow> error + string"
  VerifyAddressUsingPublicKey :: "string \<Rightarrow> string \<Rightarrow> bool \<times> error option"
  VerifyECDSA :: "string \<Rightarrow> bytes \<Rightarrow> bytes \<Rightarrow> bool \<times> error option"

text \<open>The collaborators. An operation of the operating system, the ledger or the utxo
  engine is given by the error it answers (\<open>None\<close>: it succeeded).\<close>

record env =
  json_Unmarshal_RootConfig :: "string \<Rightarrow> error option"
  json_Unmarshal_map :: "string \<Rightarrow> error + (string \<Rightarrow> val)"
  Decode_GasPrice :: "val \<Rightarrow> error + pb_GasPrice"
  Decode_InvokeRequest :: "val \<Rightarrow> error + pb_InvokeRequest"
  InvokeRequestFromJSON2Pb :: "pb_InvokeRequest list \<Rightarrow> pb_InvokeRequest list \<times> error option"
  hex_DecodeString :: "string \<Rightarrow> error + bytes"
  hex_EncodeToString :: "bytes \<Rightarrow> string"
  big_SetString :: "string \<Rightarrow> int"
  CreateCryptoClientFromJSONPublicKey :: "bytes \<Rightarrow> error + crypto_client"
  MakeTxDigestHash :: "pb_Transaction \<Rightarrow> error + bytes"
  MakeVersion :: "bytes \<Rightarrow> nat \<Rightarrow> string"
  SBlockChainConfig :: string
  CryptoTypeDefault :: string
  Glogid :: string
  os_MkdirAll :: "string \<Rightarrow> error option"
  os_Mkdir :: "string \<Rightarrow> error option"
  os_Rename :: "string \<Rightarrow> string \<Rightarrow> error option"
  ioutil_WriteFile :: "string \<Rightarrow> bytes \<Rightarrow> error option"
  ledger_NewLedger :: "string \<Rightarrow> string \<Rightarrow> string \<Rightarrow> error option"
  utxo_GenerateRootTx :: "bytes \<Rightarrow> error + pb_Transaction"
  FormatRootBlock :: "pb_Transaction list \<Rightarrow> error + bytes"
  utxo_NewUtxoVM :: "string \<Rightarrow> string \<Rightarrow> string \<Rightarrow> string \<Rightarrow> error option"
  utxovm_Play :: "bytes \<Rightarrow> error option"
  ledger_UpdateBlockChainData :: "string \<Rightarrow> string \<Rightarrow> string \<Rightarrow> string \<Rightarrow> int \<Rightarrow> error option"

subsection \<open>State meta and ledger operations\<close>

text \<open>Modelled from the spec: each \<open>StateMeta\<close> setter writes the new value through the
  open write batch, and the getter reads the live value.\<close>

definition UpdateMaxBlockSize :: "int \<Rightarrow> world \<Rightarrow> ret \<times> world" where
  "UpdateMaxBlockSize v w = (Return None, w\<lparr>meta := (meta w)\<lparr>MaxBlockSize := v\<rparr>\<rparr>)"

definition UpdateIrreversibleSlideWindow :: "int \<Rightarrow> world \<Rightarrow> ret \<times> world" where
  "UpdateIrreversibleSlideWindow v w =
     (Return None, w\<lparr>meta := (meta w)\<lparr>IrreversibleSlideWindow := v\<rparr>\<rparr>)"

definition UpdateNewAccountResourceAmount :: "int \<Rightarrow> world \<Rightarrow> ret \<times> world" where
  "UpdateNewAccountResourceAmount v w =
     (Return None, w\<lparr>meta := (meta w)\<lparr>NewAccountResourceAmount := v\<rparr>\<rparr>)"

definition UpdateGasPrice :: "pb_GasPrice \<Rightarrow> world \<Rightarrow> ret \<times> world" where
  "UpdateGasPrice v w = (Return None, w\<lparr>meta := (meta w)\<lparr>GasPrice := v\<rparr>\<rparr>)"

definition UpdateForbiddenContract :: "pb_InvokeRequest \<Rightarrow> world \<Rightarrow> ret \<times> world" where
  "UpdateForbiddenContract v w = (Return None, w\<lparr>meta := (meta w)\<lparr>ForbiddenContract := v\<rparr>\<rparr>)"

definition UpdateReservedContracts :: "pb_InvokeRequest list \<Rightarrow> world \<Rightarrow> ret \<times> world" where
  "UpdateReservedContracts v w = (Return None, w\<lparr>meta := (meta w)\<lparr>ReservedContracts := v\<rparr>\<rparr>)"

text \<open>Modelled from the spec: the ledger persists the rewrite, tagging the new txid, the
  signer's public key, the signature and the block height, unless it answers an error.\<close>

definition UpdateBlockChainData ::
  "env \<Rightarrow> string \<Rightarrow> string \<Rightarrow> string \<Rightarrow> string \<Rightarrow> int \<Rightarrow> world \<Rightarrow> ret \<times> world" where
  "UpdateBlockChainData E txid newTxid publicKey sign height w =
     (case ledger_UpdateBlockChainData E txid newTxid publicKey sign height of
        Some err \<Rightarrow> (Return (Some err), w)
      | None \<Rightarrow>
          (Return None,
           w\<lparr>ledger_rewrites := ledger_rewrites w @ [(txid, newTxid, publicKey, sign, height)]\<rparr>))"

text \<open>Modelled from the spec: \<open>QueryTransaction\<close> reads the transaction stored under
  the id and fails when there is none; the caller gets its own copy.\<close>

definition QueryTransaction :: "world \<Rightarrow> bytes \<Rightarrow> error + pb_Transaction" where
  "QueryTransaction w rawTxid =
     (case ledger_txs w rawTxid of
        None \<Rightarrow> Inl (ExternalError ''transaction not found'')
      | Some tx \<Rightarrow> Inr tx)"

text \<open>Modelled from the spec: \<open>BucketCacheDelete\<close> evicts the key (bucket, version)
  from the state-model cache.\<close>

definition BucketCacheDelete :: "string \<Rightarrow> string \<Rightarrow> world \<Rightarrow> world" where
  "BucketCacheDelete bucket version w = w\<lparr>bucket_cache := bucket_cache w - {(bucket, version)}\<rparr>"

subsection \<open>Argument validators\<close>

definition validateCreateBC :: "env \<Rightarrow> Kernel \<Rightarrow> TxDesc \<Rightarrow> error + (string \<times> string)" where
  "validateCreateBC E k desc =
     (if Args desc ''name'' = VNil then Inl (ErrorsNew ''block chain name is empty'')
      else if Args desc ''data'' = VNil then Inl (ErrorsNew ''first block data is empty'')
      else
        (case Args desc ''name'' of
           VString name \<Rightarrow>
             (case Args desc ''data'' of
                VString bcData \<Rightarrow>
                  (case json_Unmarshal_RootConfig E bcData of
                     Some err \<Rightarrow> Inl (Errorf ''first block data error.err:%v'' [AErr err])
                   | None \<Rightarrow> Inr (name, bcData))
              | _ \<Rightarrow> Inl (ErrorsNew ''the type of data should be string''))
         | _ \<Rightarrow> Inl (ErrorsNew ''the type of name should be string'')))"

text \<open>The loop shared by the three validators of numeric updates: every argument named
  must be present and a float64. The format of the missing-argument error differs
  between them.\<close>

fun check_float_args :: "string \<Rightarrow> TxDesc \<Rightarrow> string list \<Rightarrow> error option" where
  "check_float_args missing desc [] = None"
| "check_float_args missing desc (argName # rest) =
     (if Args desc argName = VNil then Some (Errorf missing [AStr argName])
      else
        (case Args desc argName of
           VFloat _ \<Rightarrow> check_float_args missing desc rest
         | v \<Rightarrow> Some (Errorf ''invalid arg type: %s, %v'' [AStr argName, AStr (type_name v)])))"

definition validateUpdateIrreversibleSlideWindow :: "Kernel \<Rightarrow> TxDesc \<Rightarrow> error option" where
  "validateUpdateIrreversibleSlideWindow k desc =
     check_float_args ''miss argument in contact: %s'' desc
       [''new_irreversible_slide_window'', ''old_irreversible_slide_window'']"

definition validateUpdateMaxBlockSize :: "Kernel \<Rightarrow> TxDesc \<Rightarrow> error option" where
  "validateUpdateMaxBlockSize k desc =
     check_float_args ''miss argument in contact: %s'' desc [''new_block_size'', ''old_block_size'']"

definition validateUpdateNewAccountResourceAmount :: "Kernel \<Rightarrow> TxDesc \<Rightarrow> error option" where
  "validateUpdateNewAccountResourceAmount k desc =
     check_float_args ''miss argument in contract: %s'' desc
       [''new_new_account_resource_amount'', ''old_new_account_resource_amount'']"

text \<open>In \<open>validateUpdateGasPrice\<close> and \<open>validateUpdateForbiddenContract\<close> the assertion
  \<open>desc.Args[name].(interface{})\<close> holds of every non-nil value, so its error branch is
  never taken.\<close>

definition validateUpdateGasPrice :: "env \<Rightarrow> Kernel \<Rightarrow> TxDesc \<Rightarrow> string \<Rightarrow> error + pb_GasPrice" where
  "validateUpdateGasPrice E k desc name =
     (if Args desc name = VNil then Inl (Errorf ''missing argument in contract: %s'' [AStr name])
      else
        (case Decode_GasPrice E (Args desc name) of
           Inl err \<Rightarrow> Inl err
         | Inr result \<Rightarrow>
             Inr \<lparr>CpuRate = CpuRate result, MemRate = MemRate result,
                  DiskRate = DiskRate result, XfeeRate = XfeeRate result\<rparr>))"

definition validateUpdateForbiddenContract ::
  "env \<Rightarrow> Kernel \<Rightarrow> TxDesc \<Rightarrow> string \<Rightarrow> error + pb_InvokeRequest" where
  "validateUpdateForbiddenContract E k desc name =
     (if Args desc name = VNil then Inl (Errorf ''miss argument in contract: %s'' [AStr name])
      else
        (case Decode_InvokeRequest E (Args desc name) of
           Inl err \<Rightarrow> Inl err
         | Inr result \<Rightarrow>
             (case InvokeRequestFromJSON2Pb E [result] of
                (forbiddenContractParam, Some transErr) \<Rightarrow> Inl transErr
              | (forbiddenContractParam, None) \<Rightarrow>
                  (case forbiddenContractParam of
                     p # _ \<Rightarrow> Inr p
                   | [] \<Rightarrow> Inl (ErrorsNew ''validateForbiddenContract failed'')))))"

text \<open>The inner loops of \<open>validateUpdateReservedContract\<close>: decode every element, then
  require a module name of every decoded element.\<close>

fun decode_params :: "env \<Rightarrow> val list \<Rightarrow> error + pb_InvokeRequest list" where
  "decode_params E [] = Inr []"
| "decode_params E (arg # rest) =
     (case Decode_InvokeRequest E arg of
        Inl err \<Rightarrow>
          Inl (Errorf ''validateUpdateReservedContract transfer invokeRequest failed'' [])
      | Inr param \<Rightarrow>
          (case decode_params E rest of
             Inl e \<Rightarrow> Inl e
           | Inr params \<Rightarrow> Inr (param # params)))"

fun check_module_names :: "pb_InvokeRequest list \<Rightarrow> error option" where
  "check_module_names [] = None"
| "check_module_names (line # rest) =
     (if ModuleName line = [] then Some (Errorf ''you should maintain the format like this []'' [])
      else check_module_names rest)"

text \<open>One round of the outer loop: the parameters decoded from the argument \<open>argName\<close>.\<close>

definition reserved_params :: "env \<Rightarrow> TxDesc \<Rightarrow> string \<Rightarrow> error + pb_InvokeRequest list" where
  "reserved_params E desc argName =
     (if Args desc argName = VNil then Inl (Errorf ''miss argument in contact: %s'' [AStr argName])
      else
        (case Args desc argName of
           VList args \<Rightarrow>
             (case decode_params E args of
                Inl e \<Rightarrow> Inl e
              | Inr params \<Rightarrow>
                  (case check_module_names params of
                     Some e \<Rightarrow> Inl e
                   | None \<Rightarrow> Inr params))
         | _ \<Rightarrow> Inl (Errorf ''validateUpdateReservedContract argName:%s invalid'' [AStr argName])))"

definition validateUpdateReservedContract ::
  "env \<Rightarrow> Kernel \<Rightarrow> TxDesc \<Rightarrow> string \<Rightarrow> error + pb_InvokeRequest list" where
  "validateUpdateReservedContract E k desc name =
     (case reserved_params E desc ''old_reserved_contracts'' of
        Inl e \<Rightarrow> Inl e
      | Inr oldp \<Rightarrow>
          (case reserved_params E desc ''new_reserved_contracts'' of
             Inl e \<Rightarrow> Inl e
           | Inr newp \<Rightarrow>
               (let result0 = (if ''old_reserved_contracts'' = name then oldp else []);
                    result = (if ''new_reserved_contracts'' = name then newp else result0)
                in Inr (fst (InvokeRequestFromJSON2Pb E result)))))"

text \<open>The cache eviction loop of \<open>validateUpdateBlockChainData\<close>, from output index \<open>i\<close>.\<close>

fun evict_outputs :: "env \<Rightarrow> bytes \<Rightarrow> nat \<Rightarrow> string list \<Rightarrow> world \<Rightarrow> world" where
  "evict_outputs E txid i [] w = w"
| "evict_outputs E txid i (bucket # rest) w =
     evict_outputs E txid (Suc i) rest (BucketCacheDelete bucket (MakeVersion E txid i) w)"

text \<open>\<open>validateUpdateBlockChainData\<close>. It reaches the ledger and the state-model cache
  through the context without a nil check. The last step returns \<open>err\<close> when
  \<open>err != nil || !ok\<close>.\<close>

definition validateUpdateBlockChainData :: "env \<Rightarrow> Kernel \<Rightarrow> TxDesc \<Rightarrow> world \<Rightarrow> ret \<times> world" where
  "validateUpdateBlockChainData E k desc w =
     (if Args desc ''txid'' = VNil \<or> Args desc ''publicKey'' = VNil \<or> Args desc ''sign'' = VNil
      then (Return (Some (Errorf ''miss argument in contact: txid, publicKey, sign'' [])), w)
      else
        (case Args desc ''txid'' of
           VString txid \<Rightarrow>
             (case Args desc ''publicKey'' of
                VString publicKey \<Rightarrow>
                  (case CreateCryptoClientFromJSONPublicKey E publicKey of
                     Inl err \<Rightarrow> (Return (Some err), w)
                   | Inr xcc \<Rightarrow>
                       (case GetEcdsaPublicKeyFromJsonStr xcc publicKey of
                          Inl err \<Rightarrow> (Return (Some err), w)
                        | Inr ecdsaKey \<Rightarrow>
                            (let addr = ModifyBlockAddr (kernelConfig k);
                                 isMatch = fst (VerifyAddressUsingPublicKey xcc addr ecdsaKey)
                             in if \<not> isMatch
                                then (Return (Some (ErrorsNew ''address and public key not match'')), w)
                                else
                                  (case Args desc ''sign'' of
                                     VString sign \<Rightarrow>
                                       (case hex_DecodeString E sign of
                                          Inl err \<Rightarrow>
                                            (Return (Some (Errorf ''invalide arg type: sign byte'' [])), w)
                                        | Inr bytesign \<Rightarrow>
                                            (case hex_DecodeString E txid of
                                               Inl err \<Rightarrow>
                                                 (Return (Some (Errorf
                                                    ''validate updateBlockChainData bad txid:%s''
                                                    [AStr txid])), w)
                                             | Inr rawTxid \<Rightarrow>
                                                 (case ctx k of
                                                    None \<Rightarrow> (Panic, w)
                                                  | Some c \<Rightarrow>
                                                      if \<not> LedgerObj c then (Panic, w)
                                                      else
                                                        (case QueryTransaction w rawTxid of
                                                           Inl err \<Rightarrow>
                                                             (Return (Some (Errorf
                                                                ''Modified tx not exist'' [])), w)
                                                         | Inr tx \<Rightarrow>
                                                             if TxOutputsExt tx \<noteq> [] \<and> \<not> UtxoMeta c
                                                             then (Panic, w)
                                                             else
                                                               (let w' = evict_outputs E (Txid tx) 0
                                                                           (TxOutputsExt tx) w;
                                                                    tx' = tx\<lparr>Desc := [], TxOutputsExt := []\<rparr>
                                                                in case MakeTxDigestHash E tx' of
                                                                     Inl err \<Rightarrow> (Return (Some err), w')
                                                                   | Inr digestHash \<Rightarrow>
                                                                       (case VerifyECDSA xcc ecdsaKey
                                                                               bytesign digestHash of
                                                                          (ok, err) \<Rightarrow>
                                                                            if err \<noteq> None \<or> \<not> ok
                                                                            then (Return err, w')
                                                                            else (Return None, w')))))))
                                   | _ \<Rightarrow> (Return (Some (Errorf ''invalid arg type: sign'' [])), w)))))
              | _ \<Rightarrow> (Return (Some (Errorf ''invalid arg type: publicKey'' [])), w))
         | _ \<Rightarrow> (Return (Some (Errorf ''invalid arg type: txid'' [])), w)))"

subsection \<open>Guarded parameter updates and their rollbacks\<close>

definition runUpdateMaxBlockSize :: "env \<Rightarrow> Kernel \<Rightarrow> TxDesc \<Rightarrow> world \<Rightarrow> ret \<times> world" where
  "runUpdateMaxBlockSize E k desc w =
     (case ctx k of
        None \<Rightarrow>
          (Return (Some (Errorf
             ''failed to update block size, because no ledger object in context'' [])), w)
      | Some c \<Rightarrow>
          if \<not> LedgerObj c
          then (Return (Some (Errorf
                  ''failed to update block size, because no ledger object in context'' [])), w)
          else
            (case validateUpdateMaxBlockSize k desc of
               Some vErr \<Rightarrow> (Return (Some vErr), w)
             | None \<Rightarrow>
                 (case (Args desc ''new_block_size'', Args desc ''old_block_size'') of
                    (VFloat nf, VFloat pf) \<Rightarrow>
                      (let newBlockSize = int64_of_float64 nf;
                           oldBlockSize = int64_of_float64 pf
                       in if \<not> UtxoMeta c then (Panic, w)
                          else
                            (let curMaxBlockSize = MaxBlockSize (meta w)
                             in if oldBlockSize \<noteq> curMaxBlockSize
                                then (Return (Some (Errorf
                                        ''unexpected old block size, got %v, expected: %v''
                                        [AInt oldBlockSize, AInt curMaxBlockSize])), w)
                                else UpdateMaxBlockSize newBlockSize w))
                  | _ \<Rightarrow> (Panic, w))))"

definition runUpdateIrreversibleSlideWindow ::
  "env \<Rightarrow> Kernel \<Rightarrow> TxDesc \<Rightarrow> world \<Rightarrow> ret \<times> world" where
  "runUpdateIrreversibleSlideWindow E k desc w =
     (case ctx k of
        None \<Rightarrow>
          (Return (Some (Errorf
             ''failed to update irreversible slide window, because no ledger object in context''
             [])), w)
      | Some c \<Rightarrow>
          if \<not> LedgerObj c
          then (Return (Some (Errorf
                  ''failed to update irreversible slide window, because no ledger object in context''
                  [])), w)
          else
            (case validateUpdateIrreversibleSlideWindow k desc of
               Some vErr \<Rightarrow> (Return (Some vErr), w)
             | None \<Rightarrow>
                 (case (Args desc ''new_irreversible_slide_window'',
                        Args desc ''old_irreversible_slide_window'') of
                    (VFloat nf, VFloat pf) \<Rightarrow>
                      (let newIrreversibleSlideWindow = int64_of_float64 nf;
                           oldIrreversibleSlideWindow = int64_of_float64 pf
                       in if \<not> UtxoMeta c then (Panic, w)
                          else
                            (let curIrreversibleSlideWindow = IrreversibleSlideWindow (meta w)
                             in if oldIrreversibleSlideWindow \<noteq> curIrreversibleSlideWindow
                                then (Return (Some (Errorf
                                        ''unexpected old block size, got %v, expected: %v''
                                        [AInt oldIrreversibleSlideWindow,
                                         AInt curIrreversibleSlideWindow])), w)
                                else UpdateIrreversibleSlideWindow newIrreversibleSlideWindow w))
                  | _ \<Rightarrow> (Panic, w))))"

definition rollbackUpdateIrreversibleSlideWindow ::
  "env \<Rightarrow> Kernel \<Rightarrow> TxDesc \<Rightarrow> world \<Rightarrow> ret \<times> world" where
  "rollbackUpdateIrreversibleSlideWindow E k desc w =
     (case ctx k of
        None \<Rightarrow>
          (Return (Some (Errorf
             ''failed to update block size, becuase no ledger object in context'' [])), w)
      | Some c \<Rightarrow>
          if \<not> LedgerObj c
          then (Return (Some (Errorf
                  ''failed to update block size, becuase no ledger object in context'' [])), w)
          else
            (case validateUpdateIrreversibleSlideWindow k desc of
               Some vErr \<Rightarrow> (Return (Some vErr), w)
             | None \<Rightarrow>
                 (case Args desc ''old_irreversible_slide_window'' of
                    VFloat pf \<Rightarrow>
                      if \<not> UtxoMeta c then (Panic, w)
                      else UpdateIrreversibleSlideWindow (int64_of_float64 pf) w
                  | _ \<Rightarrow> (Panic, w))))"

text \<open>On a mismatch the source builds an error with \<open>fmt.Errorf\<close> and drops it: the
  statement has no \<open>return\<close>, so both branches go on to the update.\<close>

definition runUpdateNewAccountResourceAmount ::
  "env \<Rightarrow> Kernel \<Rightarrow> TxDesc \<Rightarrow> world \<Rightarrow> ret \<times> world" where
  "runUpdateNewAccountResourceAmount E k desc w =
     (case ctx k of
        None \<Rightarrow>
          (Return (Some (Errorf
             ''failed to update newAccountResourceAmount, because no ledger object in context''
             [])), w)
      | Some c \<Rightarrow>
          if \<not> LedgerObj c
          then (Return (Some (Errorf
                  ''failed to update newAccountResourceAmount, because no ledger object in context''
                  [])), w)
          else
            (case validateUpdateNewAccountResourceAmount k desc of
               Some vErr \<Rightarrow> (Return (Some vErr), w)
             | None \<Rightarrow>
                 (case (Args desc ''new_new_account_resource_amount'',
                        Args desc ''old_new_account_resource_amount'') of
                    (VFloat nf, VFloat pf) \<Rightarrow>
                      (let newNewAccountResourceAmount = int64_of_float64 nf;
                           oldNewAccountResourceAmount = int64_of_float64 pf
                       in if \<not> UtxoMeta c then (Panic, w)
                          else
                            (let curNewAccountResourceAmount = NewAccountResourceAmount (meta w);
                                 dropped =
                                   (if oldNewAccountResourceAmount \<noteq> curNewAccountResourceAmount
                                    then Some (Errorf
                                      ''unexpected old newAccountResourceAmount, got %v, expected: %v''
                                      [AInt oldNewAccountResourceAmount,
                                       AInt curNewAccountResourceAmount])
                                    else None)
                             in UpdateNewAccountResourceAmount newNewAccountResourceAmount w))
                  | _ \<Rightarrow> (Panic, w))))"

definition rollbackUpdateMaxBlockSize :: "env \<Rightarrow> Kernel \<Rightarrow> TxDesc \<Rightarrow> world \<Rightarrow> ret \<times> world" where
  "rollbackUpdateMaxBlockSize E k desc w =
     (case ctx k of
        None \<Rightarrow>
          (Return (Some (Errorf
             ''failed to update block size, because no ledger object in context'' [])), w)
      | Some c \<Rightarrow>
          if \<not> LedgerObj c
          then (Return (Some (Errorf
                  ''failed to update block size, because no ledger object in context'' [])), w)
          else
            (case validateUpdateMaxBlockSize k desc of
               Some vErr \<Rightarrow> (Return (Some vErr), w)
             | None \<Rightarrow>
                 (case Args desc ''old_block_size'' of
                    VFloat pf \<Rightarrow>
                      if \<not> UtxoMeta c then (Panic, w)
                      else UpdateMaxBlockSize (int64_of_float64 pf) w
                  | _ \<Rightarrow> (Panic, w))))"

definition rollbackUpdateNewAccountResourceAmount ::
  "env \<Rightarrow> Kernel \<Rightarrow> TxDesc \<Rightarrow> world \<Rightarrow> ret \<times> world" where
  "rollbackUpdateNewAccountResourceAmount E k desc w =
     (case ctx k of
        None \<Rightarrow>
          (Return (Some (Errorf
             ''failed to update newAccountResourceAmount, because no ledger object in context''
             [])), w)
      | Some c \<Rightarrow>
          if \<not> LedgerObj c
          then (Return (Some (Errorf
                  ''failed to update newAccountResourceAmount, because no ledger object in context''
                  [])), w)
          else
            (case validateUpdateNewAccountResourceAmount k desc of
               Some vErr \<Rightarrow> (Return (Some vErr), w)
             | None \<Rightarrow>
                 (case Args desc ''old_new_account_resource_amount'' of
                    VFloat pf \<Rightarrow>
                      if \<not> UtxoMeta c then (Panic, w)
                      else UpdateNewAccountResourceAmount (int64_of_float64 pf) w
                  | _ \<Rightarrow> (Panic, w))))"

text \<open>The comparison of two requests used by the forbidden-contract and
  reserved-contract guards: names and the size of the argument maps, then every entry
  of the old argument map against the live one.\<close>

definition heads_differ :: "pb_InvokeRequest \<Rightarrow> pb_InvokeRequest \<Rightarrow> bool" where
  "heads_differ a b =
     (ModuleName a \<noteq> ModuleName b \<or> ContractName a \<noteq> ContractName b \<or>
      MethodName a \<noteq> MethodName b \<or> card (dom (ReqArgs a)) \<noteq> card (dom (ReqArgs b)))"

definition args_differ :: "pb_InvokeRequest \<Rightarrow> pb_InvokeRequest \<Rightarrow> bool" where
  "args_differ old orig = (\<exists>key \<in> dom (ReqArgs old). ReqArgs orig key \<noteq> ReqArgs old key)"

definition runUpdateForbiddenContract ::
  "env \<Rightarrow> Kernel \<Rightarrow> TxDesc \<Rightarrow> world \<Rightarrow> ret \<times> world" where
  "runUpdateForbiddenContract E k desc w =
     (case ctx k of
        None \<Rightarrow>
          (Return (Some (Errorf
             ''failed to update forbidden contract, because no ledger object in context'' [])), w)
      | Some c \<Rightarrow>
          if \<not> LedgerObj c
          then (Return (Some (Errorf
                  ''failed to update forbidden contract, because no ledger object in context''
                  [])), w)
          else
            (case validateUpdateForbiddenContract E k desc ''old_forbidden_contract'' of
               Inl err \<Rightarrow> (Return (Some err), w)
             | Inr oldParams \<Rightarrow>
                 if \<not> UtxoMeta c then (Panic, w)
                 else
                   (let originalForbiddenContract = ForbiddenContract (meta w)
                    in if heads_differ originalForbiddenContract oldParams
                       then (Return (Some (Errorf
                               ''old_forbidden_contract conf doesn't match current node forbidden_contract conf''
                               [])), w)
                       else if args_differ oldParams originalForbiddenContract
                       then (Return (Some (Errorf
                               ''old_forbidden_contract args doesn't match current node forbidden_contract args''
                               [])), w)
                       else
                         (case validateUpdateForbiddenContract E k desc ''new_forbidden_contract'' of
                            Inl err \<Rightarrow> (Return (Some err), w)
                          | Inr params \<Rightarrow> UpdateForbiddenContract params w))))"

definition rollbackUpdateForbiddenContract ::
  "env \<Rightarrow> Kernel \<Rightarrow> TxDesc \<Rightarrow> world \<Rightarrow> ret \<times> world" where
  "rollbackUpdateForbiddenContract E k desc w =
     (case ctx k of
        None \<Rightarrow>
          (Return (Some (Errorf
             ''failed to update forbidden contract, because no ledger object in context'' [])), w)
      | Some c \<Rightarrow>
          if \<not> LedgerObj c
          then (Return (Some (Errorf
                  ''failed to update forbidden contract, because no ledger object in context''
                  [])), w)
          else
            (case validateUpdateForbiddenContract E k desc ''old_forbidden_contract'' of
               Inl err \<Rightarrow> (Return (Some err), w)
             | Inr params \<Rightarrow>
                 if \<not> UtxoMeta c then (Panic, w) else UpdateForbiddenContract params w))"

text \<open>The two nested loops of \<open>runUpdateReservedContract\<close>: for the old element at index
  \<open>i\<close>, run over the live list from index \<open>j\<close>, skip every \<open>j \<noteq> i\<close> and compare at
  \<open>j = i\<close>.\<close>

fun reserved_inner :: "nat \<Rightarrow> pb_InvokeRequest \<Rightarrow> nat \<Rightarrow> pb_InvokeRequest list \<Rightarrow> error option" where
  "reserved_inner i vold j [] = None"
| "reserved_inner i vold j (vorig # rest) =
     (if i \<noteq> j then reserved_inner i vold (Suc j) rest
      else if heads_differ vold vorig
      then Some (Errorf ''old_reserved_contracts values are not equal to the current node'' [])
      else if args_differ vold vorig
      then Some (Errorf ''old_reserved_contracts values are not equal to the current node'' [])
      else reserved_inner i vold (Suc j) rest)"

fun reserved_outer :: "nat \<Rightarrow> pb_InvokeRequest list \<Rightarrow> pb_InvokeRequest list \<Rightarrow> error option" where
  "reserved_outer i [] originalReservedContracts = None"
| "reserved_outer i (vold # rest) originalReservedContracts =
     (case reserved_inner i vold 0 originalReservedContracts of
        Some e \<Rightarrow> Some e
      | None \<Rightarrow> reserved_outer (Suc i) rest originalReservedContracts)"

definition runUpdateReservedContract ::
  "env \<Rightarrow> Kernel \<Rightarrow> TxDesc \<Rightarrow> world \<Rightarrow> ret \<times> world" where
  "runUpdateReservedContract E k desc w =
     (case ctx k of
        None \<Rightarrow>
          (Return (Some (Errorf
             ''failed to update reservered contract, because no ledger object in context'' [])), w)
      | Some c \<Rightarrow>
          if \<not> LedgerObj c
          then (Return (Some (Errorf
                  ''failed to update reservered contract, because no ledger object in context''
                  [])), w)
          else
            (case validateUpdateReservedContract E k desc ''old_reserved_contracts'' of
               Inl err \<Rightarrow> (Return (Some err), w)
             | Inr oldParams \<Rightarrow>
                 if \<not> UtxoMeta c then (Panic, w)
                 else
                   (let originalReservedContracts = ReservedContracts (meta w)
                    in case reserved_outer 0 oldParams originalReservedContracts of
                         Some e \<Rightarrow> (Return (Some e), w)
                       | None \<Rightarrow>
                           (case validateUpdateReservedContract E k desc ''new_reserved_contracts'' of
                              Inl err \<Rightarrow> (Return (Some err), w)
                            | Inr params \<Rightarrow> UpdateReservedContracts params w))))"

definition runUpdateGasPrice :: "env \<Rightarrow> Kernel \<Rightarrow> TxDesc \<Rightarrow> world \<Rightarrow> ret \<times> world" where
  "runUpdateGasPrice E k desc w =
     (case ctx k of
        None \<Rightarrow>
          (Return (Some (Errorf
             ''failed to update gas price, because no utxoMeta in context'' [])), w)
      | Some c \<Rightarrow>
          if \<not> UtxoMeta c
          then (Return (Some (Errorf
                  ''failed to update gas price, because no utxoMeta in context'' [])), w)
          else
            (case validateUpdateGasPrice E k desc ''old_gas_price'' of
               Inl vErr \<Rightarrow> (Return (Some vErr), w)
             | Inr oldParams \<Rightarrow>
                 (let originalGasPrice = GasPrice (meta w)
                  in if CpuRate oldParams \<noteq> CpuRate originalGasPrice \<or>
                        MemRate oldParams \<noteq> MemRate originalGasPrice \<or>
                        DiskRate oldParams \<noteq> DiskRate originalGasPrice \<or>
                        XfeeRate oldParams \<noteq> XfeeRate originalGasPrice
                     then (Return (Some (Errorf
                             ''old_gas_price values are not equal to the current node'' [])), w)
                     else
                       (case validateUpdateGasPrice E k desc ''new_gas_price'' of
                          Inl err \<Rightarrow> (Return (Some err), w)
                        | Inr newGasPrice \<Rightarrow> UpdateGasPrice newGasPrice w))))"

definition rollbackUpdateGasPrice :: "env \<Rightarrow> Kernel \<Rightarrow> TxDesc \<Rightarrow> world \<Rightarrow> ret \<times> world" where
  "rollbackUpdateGasPrice E k desc w =
     (case ctx k of
        None \<Rightarrow>
          (Return (Some (Errorf
             ''failed to rollback gas price, because no utxoMeta in context'' [])), w)
      | Some c \<Rightarrow>
          if \<not> UtxoMeta c
          then (Return (Some (Errorf
                  ''failed to rollback gas price, because no utxoMeta in context'' [])), w)
          else
            (case validateUpdateGasPrice E k desc ''old_gas_price'' of
               Inl vErr \<Rightarrow> (Return (Some vErr), w)
             | Inr oldParams \<Rightarrow> UpdateGasPrice oldParams w))"

definition rollbackUpdateReservedContract ::
  "env \<Rightarrow> Kernel \<Rightarrow> TxDesc \<Rightarrow> world \<Rightarrow> ret \<times> world" where
  "rollbackUpdateReservedContract E k desc w =
     (case ctx k of
        None \<Rightarrow>
          (Return (Some (Errorf
             ''failed to update reservered contract, because no ledger object in context'' [])), w)
      | Some c \<Rightarrow>
          if \<not> LedgerObj c
          then (Return (Some (Errorf
                  ''failed to update reservered contract, because no ledger object in context''
                  [])), w)
          else
            (case validateUpdateReservedContract E k desc ''old_reserved_contracts'' of
               Inl err \<Rightarrow> (Return (Some err), w)
             | Inr params \<Rightarrow>
                 if \<not> UtxoMeta c then (Panic, w) else UpdateReservedContracts params w))"

subsection \<open>The file system\<close>

text \<open>Modelled from the spec: the side-chain directory is \<open><datapath>/<name>\<close>;
  \<open>filepath.Join\<close> of two clean path elements puts a separator between them.\<close>

definition filepath_Join :: "string \<Rightarrow> string \<Rightarrow> string" where
  "filepath_Join dir name = dir @ ''/'' @ name"

text \<open>Modelled from the spec: \<open>global.PathExists\<close> tells whether the path exists.\<close>

definition PathExists :: "string \<Rightarrow> world \<Rightarrow> bool" where
  "PathExists path w = (path \<in> fs w)"

text \<open>A path is \<open>p\<close> itself or lies below the directory \<open>p\<close>.\<close>

definition under :: "string \<Rightarrow> string \<Rightarrow> bool" where
  "under p q = (q = p \<or> take (length p + 1) q = p @ ''/'')"

text \<open>\<open>os.RemoveAll\<close> removes the path and everything below it; the source ignores its
  result.\<close>

definition RemoveAll :: "string \<Rightarrow> world \<Rightarrow> world" where
  "RemoveAll path w = w\<lparr>fs := {q \<in> fs w. \<not> under path q}\<rparr>"

text \<open>A successful \<open>os.Rename\<close> moves the path and everything below it.\<close>

definition renamed :: "string \<Rightarrow> string \<Rightarrow> world \<Rightarrow> world" where
  "renamed src dst w =
     w\<lparr>fs := (\<lambda>q. if under src q then dst @ drop (length src) q else q) ` fs w\<rparr>"

subsection \<open>Chain lifecycle\<close>

definition GetKVEngineType :: "env \<Rightarrow> Kernel \<Rightarrow> bytes \<Rightarrow> string result" where
  "GetKVEngineType E k data =
     (case json_Unmarshal_map E data of
        Inl err \<Rightarrow> Fail err
      | Inr rootJSON \<Rightarrow>
          (case rootJSON ''kvengine'' of
             VNil \<Rightarrow> Ok ''default''
           | VString kvEngineType \<Rightarrow> Ok kvEngineType
           | _ \<Rightarrow> Panicked))"

definition GetCryptoType :: "env \<Rightarrow> Kernel \<Rightarrow> bytes \<Rightarrow> string result" where
  "GetCryptoType E k data =
     (case json_Unmarshal_map E data of
        Inl err \<Rightarrow> Fail err
      | Inr rootJSON \<Rightarrow>
          (case rootJSON ''crypto'' of
             VNil \<Rightarrow> Ok (CryptoTypeDefault E)
           | VString cryptoType \<Rightarrow> Ok cryptoType
           | _ \<Rightarrow> Panicked))"

text \<open>\<open>initPermissionModel\<close> fails only when the data does not parse; once parsed, every
  branch over the \<open>permission\<close> entry logs at most and ends in \<open>return nil\<close>.\<close>

definition initPermissionModel :: "env \<Rightarrow> Kernel \<Rightarrow> bytes \<Rightarrow> error option" where
  "initPermissionModel E k data =
     (case json_Unmarshal_map E data of
        Inl err \<Rightarrow> Some err
      | Inr rootJSON \<Rightarrow>
          (case rootJSON ''permission'' of
             VNil \<Rightarrow> None
           | VMap modelset \<Rightarrow> None
           | _ \<Rightarrow> None))"

text \<open>\<open>CreateBlockChain\<close>. The source ignores the result of \<open>ConfirmBlock\<close>, only logs an
  error of \<open>Play\<close>, and closes the ledger and the utxo engine on exit; the files these
  two keep below the directory are not tracked.\<close>

definition CreateBlockChain :: "env \<Rightarrow> Kernel \<Rightarrow> string \<Rightarrow> bytes \<Rightarrow> world \<Rightarrow> ret \<times> world" where
  "CreateBlockChain E k name data w =
     (if bcName k \<noteq> ''xuper'' then (Return (Some ErrPermissionDenied), w)
      else
        (let fullpath = filepath_Join (datapath k) name
         in if PathExists fullpath w then (Return (Some ErrBlockChainExist), w)
            else
              (case os_MkdirAll E fullpath of
                 Some err \<Rightarrow> (Return (Some err), w)
               | None \<Rightarrow>
                   (let w1 = w\<lparr>fs := insert fullpath (fs w)\<rparr>;
                        rootfile = filepath_Join fullpath (SBlockChainConfig E)
                    in case ioutil_WriteFile E rootfile data of
                         Some err \<Rightarrow> (Return (Some err), RemoveAll fullpath w1)
                       | None \<Rightarrow>
                           (let w2 = w1\<lparr>fs := insert rootfile (fs w1)\<rparr>
                            in case GetKVEngineType E k data of
                                 Panicked \<Rightarrow> (Panic, w2)
                               | Fail err \<Rightarrow> (Return (Some err), w2)
                               | Ok kvEngineType \<Rightarrow>
                                   (case GetCryptoType E k data of
                                      Panicked \<Rightarrow> (Panic, w2)
                                    | Fail err \<Rightarrow> (Return (Some err), w2)
                                    | Ok cryptoType \<Rightarrow>
                                        (case ledger_NewLedger E fullpath kvEngineType cryptoType of
                                           Some err \<Rightarrow> (Return (Some err), RemoveAll fullpath w2)
                                         | None \<Rightarrow>
                                             (case utxo_GenerateRootTx E data of
                                                Inl err \<Rightarrow> (Return (Some err), RemoveAll fullpath w2)
                                              | Inr tx \<Rightarrow>
                                                  (case FormatRootBlock E [tx] of
                                                     Inl err \<Rightarrow>
                                                       (Return (Some ErrCreateBlockChain),
                                                        RemoveAll fullpath w2)
                                                   | Inr blockid \<Rightarrow>
                                                       (case utxo_NewUtxoVM E name fullpath
                                                               kvEngineType cryptoType of
                                                          Some err \<Rightarrow>
                                                            (Return (Some err), RemoveAll fullpath w2)
                                                        | None \<Rightarrow>
                                                            (case initPermissionModel E k data of
                                                               Some err \<Rightarrow> (Return (Some err), w2)
                                                             | None \<Rightarrow>
                                                                 (case utxovm_Play E blockid of
                                                                    Some err \<Rightarrow> (Return None, w2)
                                                                  | None \<Rightarrow> (Return None, w2)))))))))))))"

definition RemoveBlockChainData :: "env \<Rightarrow> Kernel \<Rightarrow> string \<Rightarrow> world \<Rightarrow> ret \<times> world" where
  "RemoveBlockChainData E k name w =
     (if bcName k \<noteq> ''xuper'' then (Return (Some ErrPermissionDenied), w)
      else
        (let fullpath = datapath k @ ''/'' @ name;
             trashPath = datapath k @ ''/../trash'';
             made =
               (if \<not> PathExists trashPath w
                then (case os_Mkdir E trashPath of
                        Some err \<Rightarrow> Inl err
                      | None \<Rightarrow> Inr (w\<lparr>fs := insert trashPath (fs w)\<rparr>))
                else Inr w)
         in case made of
              Inl err \<Rightarrow> (Return (Some err), w)
            | Inr w1 \<Rightarrow>
                (let randomName = name @ ''_'' @ Glogid E
                 in case os_Rename E fullpath (trashPath @ ''/'' @ randomName) of
                      Some err \<Rightarrow> (Return (Some err), w1)
                    | None \<Rightarrow> (Return None, renamed fullpath (trashPath @ ''/'' @ randomName) w1))))"

definition runCreateBlockChain :: "env \<Rightarrow> Kernel \<Rightarrow> TxDesc \<Rightarrow> world \<Rightarrow> ret \<times> world" where
  "runCreateBlockChain E k desc w =
     (case validateCreateBC E k desc of
        Inl err \<Rightarrow> (Return (Some err), w)
      | Inr (name, bcData) \<Rightarrow>
          if bcName k \<noteq> ''xuper'' then (Return (Some ErrPermissionDenied), w)
          else if \<not> FromAddrInList (Tx desc) (NewChainWhiteList (kernelConfig k)) \<and>
                  \<not> DisableCreateChainWhiteList (kernelConfig k)
          then (Return (Some ErrAddrNotInWhiteList), w)
          else
            (case ctx k of
               None \<Rightarrow> (Panic, w)
             | Some c \<Rightarrow>
                 if \<not> LedgerObj c then (Panic, w)
                 else
                   (let nofee = ledger_nofee w;
                        investment = GetAmountByAddress (Tx desc) name;
                        minNewChainAmount = big_SetString E (MinNewChainAmount (kernelConfig k))
                    in if \<not> nofee \<and> investment < minNewChainAmount
                       then (Return (Some ErrNoEnoughUTXO), w)
                       else
                         (case CreateBlockChain E k name bcData w of
                            (Panic, w') \<Rightarrow> (Panic, w')
                          | (Return (Some err), w') \<Rightarrow>
                              if err = ErrBlockChainExist then (Return None, w')
                              else (Return (Some err), w')
                          | (Return None, w') \<Rightarrow>
                              (case register k of
                                 Some r \<Rightarrow>
                                   (Return (RegisterBlockChain r name),
                                    w'\<lparr>register_log := register_log w' @ [CallRegister name]\<rparr>)
                               | None \<Rightarrow> (Return None, w'))))))"

text \<open>\<open>runStopBlockChain\<close> calls the register without a nil check; in the branch where
  \<open>UnloadBlockChain\<close> answers an error the source logs a warning and returns nil.\<close>

definition runStopBlockChain :: "env \<Rightarrow> Kernel \<Rightarrow> TxDesc \<Rightarrow> world \<Rightarrow> ret \<times> world" where
  "runStopBlockChain E k desc w =
     (if \<not> EnableStopChain (kernelConfig k) then (Return (Some ErrPermissionDenied), w)
      else if Args desc ''name'' = VNil then (Return (Some ErrInvalidChainName), w)
      else
        (case Args desc ''name'' of
           VString name \<Rightarrow>
             if name = [] then (Return (Some ErrInvalidChainName), w)
             else if name = ''xuper'' then (Return (Some ErrPermissionDenied), w)
             else if \<not> FromAddrInList (Tx desc) (NewChainWhiteList (kernelConfig k)) \<and>
                     \<not> DisableCreateChainWhiteList (kernelConfig k)
             then (Return (Some ErrAddrNotInWhiteList), w)
             else
               (case register k of
                  None \<Rightarrow> (Panic, w)
                | Some r \<Rightarrow>
                    (case UnloadBlockChain r name of
                       Some err \<Rightarrow>
                         (Return None, w\<lparr>register_log := register_log w @ [CallUnload name]\<rparr>)
                     | None \<Rightarrow>
                         (Return None, w\<lparr>register_log := register_log w @ [CallUnload name]\<rparr>)))
         | _ \<Rightarrow> (Return (Some ErrInvalidChainName), w)))"

definition rollbackStopBlockChain :: "env \<Rightarrow> Kernel \<Rightarrow> TxDesc \<Rightarrow> world \<Rightarrow> ret \<times> world" where
  "rollbackStopBlockChain E k desc w =
     (if \<not> EnableStopChain (kernelConfig k) then (Return (Some ErrPermissionDenied), w)
      else if Args desc ''name'' = VNil then (Return (Some ErrInvalidChainName), w)
      else
        (case Args desc ''name'' of
           VString name \<Rightarrow>
             if name = [] then (Return (Some ErrInvalidChainName), w) else (Return None, w)
         | _ \<Rightarrow> (Return (Some ErrInvalidChainName), w)))"

definition rollbackCreateBlockChain :: "env \<Rightarrow> Kernel \<Rightarrow> TxDesc \<Rightarrow> world \<Rightarrow> ret \<times> world" where
  "rollbackCreateBlockChain E k desc w =
     (case validateCreateBC E k desc of
        Inl err \<Rightarrow> (Return (Some err), w)
      | Inr (name, bcData) \<Rightarrow>
          (let fullpath = datapath k @ ''/'' @ name
           in if \<not> PathExists fullpath w then (Return None, w)
              else
                (case RemoveBlockChainData E k name w of
                   (Panic, w') \<Rightarrow> (Panic, w')
                 | (Return (Some err), w') \<Rightarrow> (Return (Some err), w')
                 | (Return None, w') \<Rightarrow>
                     (case register k of
                        Some r \<Rightarrow>
                          (Return (UnloadBlockChain r name),
                           w'\<lparr>register_log := register_log w' @ [CallUnload name]\<rparr>)
                      | None \<Rightarrow> (Return None, w')))))"

subsection \<open>Historical data rewrite\<close>

definition runUpdateBlockChainData :: "env \<Rightarrow> Kernel \<Rightarrow> TxDesc \<Rightarrow> world \<Rightarrow> ret \<times> world" where
  "runUpdateBlockChainData E k desc w =
     (case ctx k of
        None \<Rightarrow>
          (Return (Some (Errorf
             ''failed to update blockchain data, because no ledger object in context'' [])), w)
      | Some c \<Rightarrow>
          if \<not> LedgerObj c
          then (Return (Some (Errorf
                  ''failed to update blockchain data, because no ledger object in context'' [])), w)
          else
            (case validateUpdateBlockChainData E k desc w of
               (Panic, w') \<Rightarrow> (Panic, w')
             | (Return (Some err), w') \<Rightarrow> (Return (Some err), w')
             | (Return None, w') \<Rightarrow>
                 (let txid = as_string (Args desc ''txid'');
                      publicKey = as_string (Args desc ''publicKey'');
                      sign = as_string (Args desc ''sign'')
                  in case Block c of
                       None \<Rightarrow> (Panic, w')
                     | Some height \<Rightarrow>
                         UpdateBlockChainData E txid (hex_EncodeToString E (Txid (Tx desc)))
                           publicKey sign height w')))"

definition rollbackUpdateBlockChainData ::
  "env \<Rightarrow> Kernel \<Rightarrow> TxDesc \<Rightarrow> world \<Rightarrow> ret \<times> world" where
  "rollbackUpdateBlockChainData E k desc w =
     (case ctx k of
        None \<Rightarrow>
          (Return (Some (Errorf
             ''failed to modify blockchain data, because no ledger object in context'' [])), w)
      | Some c \<Rightarrow>
          if \<not> LedgerObj c
          then (Return (Some (Errorf
                  ''failed to modify blockchain data, because no ledger object in context'' [])), w)
          else (Return None, w))"

subsection \<open>Method tables and dispatcher\<close>

type_synonym KernelMethodFunc = "env \<Rightarrow> Kernel \<Rightarrow> TxDesc \<Rightarrow> world \<Rightarrow> ret \<times> world"

definition runKernelFuncMap :: "(string \<times> KernelMethodFunc) list" where
  "runKernelFuncMap =
     [(''CreateBlockChain'', runCreateBlockChain),
      (''UpdateMaxBlockSize'', runUpdateMaxBlockSize),
      (''UpdateReservedContract'', runUpdateReservedContract),
      (''UpdateForbiddenContract'', runUpdateForbiddenContract),
      (''UpdateBlockChainData'', runUpdateBlockChainData),
      (''UpdateNewAccountResourceAmount'', runUpdateNewAccountResourceAmount),
      (''UpdateIrreversibleSlideWindow'', runUpdateIrreversibleSlideWindow),
      (''UpdateGasPrice'', runUpdateGasPrice),
      (''StopBlockChain'', runStopBlockChain)]"

definition rollbackKernelFuncMap :: "(string \<times> KernelMethodFunc) list" where
  "rollbackKernelFuncMap =
     [(''CreateBlockChain'', rollbackCreateBlockChain),
      (''UpdateMaxBlockSize'', rollbackUpdateMaxBlockSize),
      (''UpdateReservedContract'', rollbackUpdateReservedContract),
      (''UpdateForbiddenContract'', rollbackUpdateForbiddenContract),
      (''UpdateBlockChainData'', rollbackUpdateBlockChainData),
      (''UpdateNewAccountResourceAmount'', rollbackUpdateNewAccountResourceAmount),
      (''UpdateIrreversibleSlideWindow'', rollbackUpdateIrreversibleSlideWindow),
      (''UpdateGasPrice'', rollbackUpdateGasPrice),
      (''StopBlockChain'', rollbackStopBlockChain)]"

text \<open>\<open>rootKernelMap[m]\<close>: indexing the map at a missing key yields false.\<close>

definition rootKernelMap :: "string \<Rightarrow> bool" where
  "rootKernelMap m = (case map_of [(''CreateBlockChain'', True), (''StopBlockChain'', True)] m of
                        Some b \<Rightarrow> b
                      | None \<Rightarrow> False)"

definition kernelRun :: "KernelMethodFunc \<Rightarrow> env \<Rightarrow> Kernel \<Rightarrow> TxDesc \<Rightarrow> world \<Rightarrow> ret \<times> world" where
  "kernelRun method E k arg w = method E k arg w"

text \<open>\<open>Run\<close> and \<open>Rollback\<close> hold the kernel's mutex from entry to exit; one call is one
  step of the model.\<close>

definition Run :: "env \<Rightarrow> Kernel \<Rightarrow> TxDesc \<Rightarrow> world \<Rightarrow> ret \<times> world" where
  "Run E k desc w =
     (case map_of runKernelFuncMap (Method desc) of
        None \<Rightarrow> (Return (Some ErrMethodNotImplemented), w)
      | Some method \<Rightarrow>
          if rootKernelMap (Method desc) \<and> bcName k \<noteq> ''xuper''
          then (Return (Some ErrPermissionDenied), w)
          else kernelRun method E k desc w)"

definition Rollback :: "env \<Rightarrow> Kernel \<Rightarrow> TxDesc \<Rightarrow> world \<Rightarrow> ret \<times> world" where
  "Rollback E k desc w =
     (case map_of rollbackKernelFuncMap (Method desc) of
        None \<Rightarrow> (Return (Some ErrMethodNotImplemented), w)
      | Some method \<Rightarrow>
          if rootKernelMap (Method desc) \<and> bcName k \<noteq> ''xuper''
          then (Return (Some ErrPermissionDenied), w)
          else kernelRun method E k desc w)"

subsection \<open>A concrete kernel, environment and world\<close>

text \<open>Inputs on which the operations are evaluated below. The codecs are small stand-ins
  for the libraries: they accept the shapes the examples use and refuse the rest.\<close>

definition args_of :: "(string \<times> val) list \<Rightarrow> string \<Rightarrow> val" where
  "args_of kv key = (case map_of kv key of Some v \<Rightarrow> v | None \<Rightarrow> VNil)"

definition rate_of :: "(string \<times> val) list \<Rightarrow> string \<Rightarrow> int" where
  "rate_of kv key = (case map_of kv key of Some (VFloat f) \<Rightarrow> int64_of_float64 f | _ \<Rightarrow> 0)"

definition demo_Decode_GasPrice :: "val \<Rightarrow> error + pb_GasPrice" where
  "demo_Decode_GasPrice v =
     (case v of
        VMap kv \<Rightarrow>
          Inr \<lparr>CpuRate = rate_of kv ''cpu_rate'', MemRate = rate_of kv ''mem_rate'',
               DiskRate = rate_of kv ''disk_rate'', XfeeRate = rate_of kv ''xfee_rate''\<rparr>
      | _ \<Rightarrow> Inl (ExternalError ''expected a map''))"

definition demo_Decode_InvokeRequest :: "val \<Rightarrow> error + pb_InvokeRequest" where
  "demo_Decode_InvokeRequest v =
     (case v of
        VMap kv \<Rightarrow>
          Inr \<lparr>ModuleName = as_string (args_of kv ''module_name''),
               ContractName = as_string (args_of kv ''contract_name''),
               MethodName = as_string (args_of kv ''method_name''),
               ReqArgs = Map.empty\<rparr>
      | _ \<Rightarrow> Inl (ExternalError ''expected a map''))"

text \<open>A client whose signature check answers \<open>(false, nil)\<close> on a well-formed
  signature that does not match, as an ECDSA verification does.\<close>

definition demo_client :: crypto_client where
  "demo_client =
     \<lparr>GetEcdsaPublicKeyFromJsonStr = (\<lambda>s. Inr s),
      VerifyAddressUsingPublicKey = (\<lambda>addr key. (key = ''pk-'' @ addr, None)),
      VerifyECDSA = (\<lambda>key sig digest. (sig = digest @ key, None))\<rparr>"

definition demo_env :: env where
  "demo_env =
     \<lparr>json_Unmarshal_RootConfig =
        (\<lambda>s. if s = ''{}'' then None else Some (ExternalError ''unexpected end of JSON input'')),
      json_Unmarshal_map =
        (\<lambda>s. if s = ''{}'' then Inr (\<lambda>key. VNil)
             else Inl (ExternalError ''unexpected end of JSON input'')),
      Decode_GasPrice = demo_Decode_GasPrice,
      Decode_InvokeRequest = demo_Decode_InvokeRequest,
      InvokeRequestFromJSON2Pb = (\<lambda>reqs. (reqs, None)),
      hex_DecodeString =
        (\<lambda>s. if even (length s) then Inr s else Inl (ExternalError ''encoding/hex: odd length'')),
      hex_EncodeToString = (\<lambda>b. b),
      big_SetString = (\<lambda>s. if s = ''100'' then 100 else 0),
      CreateCryptoClientFromJSONPublicKey = (\<lambda>pk. Inr demo_client),
      MakeTxDigestHash = (\<lambda>tx. Inr (Txid tx @ Desc tx)),
      MakeVersion = (\<lambda>txid i. txid @ ''_'' @ replicate i (CHR ''1'')),
      SBlockChainConfig = ''xuper.json'',
      CryptoTypeDefault = ''default'',
      Glogid = ''1001'',
      os_MkdirAll = (\<lambda>path. None),
      os_Mkdir = (\<lambda>path. None),
      os_Rename = (\<lambda>src dst. None),
      ioutil_WriteFile = (\<lambda>path data. None),
      ledger_NewLedger = (\<lambda>path kv crypto. None),
      utxo_GenerateRootTx =
        (\<lambda>data. Inr \<lparr>Txid = ''00'', Desc = data, TxInputs = [], TxOutputs = [],
                      TxOutputsExt = []\<rparr>),
      FormatRootBlock = (\<lambda>txs. Inr ''b0''),
      utxo_NewUtxoVM = (\<lambda>name path kv crypto. None),
      utxovm_Play = (\<lambda>blockid. None),
      ledger_UpdateBlockChainData = (\<lambda>txid newTxid pk sign height. None)\<rparr>"

definition demo_config :: KernelConfig where
  "demo_config =
     \<lparr>NewChainWhiteList = (\<lambda>addr. addr = ''alice''),
      DisableCreateChainWhiteList = False,
      MinNewChainAmount = ''100'',
      EnableStopChain = True,
      ModifyBlockAddr = ''admin''\<rparr>"

text \<open>A register that cannot unload: every \<open>UnloadBlockChain\<close> answers an error.\<close>

definition demo_register :: ChainRegister where
  "demo_register =
     \<lparr>RegisterBlockChain = (\<lambda>name. None),
      UnloadBlockChain = (\<lambda>name. Some (ExternalError ''chain not loaded''))\<rparr>"

definition demo_kernel :: Kernel where
  "demo_kernel =
     \<lparr>datapath = ''data'',
      register = Some demo_register,
      ctx = Some \<lparr>LedgerObj = True, UtxoMeta = True, Block = Some 7\<rparr>,
      bcName = ''xuper'',
      kernelConfig = demo_config\<rparr>"

definition demo_contract :: pb_InvokeRequest where
  "demo_contract =
     \<lparr>ModuleName = ''wasm'', ContractName = ''identity'', MethodName = ''verify'',
      ReqArgs = Map.empty\<rparr>"

definition demo_meta :: StateMeta where
  "demo_meta =
     \<lparr>MaxBlockSize = 1048576,
      IrreversibleSlideWindow = 10,
      NewAccountResourceAmount = 3,
      GasPrice = \<lparr>CpuRate = 1, MemRate = 1, DiskRate = 1, XfeeRate = 1\<rparr>,
      ForbiddenContract =
        \<lparr>ModuleName = [], ContractName = [], MethodName = [], ReqArgs = Map.empty\<rparr>,
      ReservedContracts = [demo_contract]\<rparr>"

definition demo_target :: pb_Transaction where
  "demo_target =
     \<lparr>Txid = ''ab'', Desc = ''memo'', TxInputs = [''bob''], TxOutputs = [(''carol'', 5)],
      TxOutputsExt = [''bucket1'']\<rparr>"

definition demo_world :: world where
  "demo_world =
     \<lparr>fs = {''data''},
      register_log = [],
      meta = demo_meta,
      bucket_cache = {(''bucket1'', ''ab_'')},
      ledger_txs = (\<lambda>txid. if txid = ''ab'' then Some demo_target else None),
      ledger_nofee = True,
      ledger_rewrites = []\<rparr>"

definition demo_carrier :: pb_Transaction where
  "demo_carrier =
     \<lparr>Txid = ''cd'', Desc = [], TxInputs = [''alice''], TxOutputs = [(''side1'', 100)],
      TxOutputsExt = []\<rparr>"

definition demo_desc :: "string \<Rightarrow> (string \<times> val) list \<Rightarrow> TxDesc" where
  "demo_desc method kv = \<lparr>Method = method, Args = args_of kv, Tx = demo_carrier\<rparr>"

subsection \<open>Predicates used by the properties\<close>

text \<open>The six parameter-update methods.\<close>

definition is_parameter_update :: "string \<Rightarrow> bool" where
  "is_parameter_update m =
     (m \<in> set [''UpdateMaxBlockSize'', ''UpdateIrreversibleSlideWindow'',
               ''UpdateNewAccountResourceAmount'', ''UpdateGasPrice'',
               ''UpdateForbiddenContract'', ''UpdateReservedContract''])"

definition is_Inr :: "'a + 'b \<Rightarrow> bool" where
  "is_Inr x = (case x of Inl _ \<Rightarrow> False | Inr _ \<Rightarrow> True)"

text \<open>The descriptor of a parameter update passes the validation of its method: the
  validator of the numeric updates, and the validator on both the old and the new
  argument for gas price, forbidden contract and reserved contracts.\<close>

definition passes_validation :: "env \<Rightarrow> Kernel \<Rightarrow> TxDesc \<Rightarrow> bool" where
  "passes_validation E k d =
     (if Method d = ''UpdateMaxBlockSize'' then validateUpdateMaxBlockSize k d = None
      else if Method d = ''UpdateIrreversibleSlideWindow''
        then validateUpdateIrreversibleSlideWindow k d = None
      else if Method d = ''UpdateNewAccountResourceAmount''
        then validateUpdateNewAccountResourceAmount k d = None
      else if Method d = ''UpdateGasPrice''
        then is_Inr (validateUpdateGasPrice E k d ''old_gas_price'') \<and>
             is_Inr (validateUpdateGasPrice E k d ''new_gas_price'')
      else if Method d = ''UpdateForbiddenContract''
        then is_Inr (validateUpdateForbiddenContract E k d ''old_forbidden_contract'') \<and>
             is_Inr (validateUpdateForbiddenContract E k d ''new_forbidden_contract'')
      else if Method d = ''UpdateReservedContract''
        then is_Inr (validateUpdateReservedContract E k d ''old_reserved_contracts'') \<and>
             is_Inr (validateUpdateReservedContract E k d ''new_reserved_contracts'')
      else False)"

text \<open>The int64 a handler reads from a numeric argument.\<close>

definition arg_int64 :: "TxDesc \<Rightarrow> string \<Rightarrow> int option" where
  "arg_int64 d name = (case Args d name of VFloat f \<Rightarrow> Some (int64_of_float64 f) | _ \<Rightarrow> None)"

text \<open>The \<open>old_X\<close> value of the descriptor, as its handler reads it, is the value stored
  in the state meta of the world.\<close>

definition old_equals_live :: "env \<Rightarrow> Kernel \<Rightarrow> TxDesc \<Rightarrow> world \<Rightarrow> bool" where
  "old_equals_live E k d w =
     (if Method d = ''UpdateMaxBlockSize''
        then arg_int64 d ''old_block_size'' = Some (MaxBlockSize (meta w))
      else if Method d = ''UpdateIrreversibleSlideWindow''
        then arg_int64 d ''old_irreversible_slide_window''
               = Some (IrreversibleSlideWindow (meta w))
      else if Method d = ''UpdateNewAccountResourceAmount''
        then arg_int64 d ''old_new_account_resource_amount''
               = Some (NewAccountResourceAmount (meta w))
      else if Method d = ''UpdateGasPrice''
        then validateUpdateGasPrice E k d ''old_gas_price'' = Inr (GasPrice (meta w))
      else if Method d = ''UpdateForbiddenContract''
        then validateUpdateForbiddenContract E k d ''old_forbidden_contract''
               = Inr (ForbiddenContract (meta w))
      else if Method d = ''UpdateReservedContract''
        then validateUpdateReservedContract E k d ''old_reserved_contracts''
               = Inr (ReservedContracts (meta w))
      else False)"

text \<open>The context is set and both its ledger and its state meta are non-nil.\<close>

definition handles_set :: "Kernel \<Rightarrow> bool" where
  "handles_set k = (case ctx k of None \<Rightarrow> False | Some c \<Rightarrow> LedgerObj c \<and> UtxoMeta c)"



section \<open>Properties\<close>

subsection \<open>Shared lemmas\<close>

lemmas demo_defs = demo_env_def demo_kernel_def demo_world_def demo_desc_def demo_config_def
  demo_register_def demo_meta_def demo_contract_def demo_target_def demo_carrier_def
  demo_client_def demo_Decode_GasPrice_def demo_Decode_InvokeRequest_def args_of_def rate_of_def


lemma handles_setD:
  "handles_set k \<Longrightarrow> \<exists>c. ctx k = Some c \<and> LedgerObj c \<and> UtxoMeta c"
  by (auto simp: handles_set_def split: option.splits)

lemma check_float_args_VFloat:
  "check_float_args fmt d names = None \<Longrightarrow> n \<in> set names \<Longrightarrow> \<exists>f. Args d n = VFloat f"
  by (induction names) (auto split: if_splits val.splits)

lemma arg_int64_SomeD:
  "arg_int64 d name = Some v \<Longrightarrow> \<exists>f. Args d name = VFloat f \<and> int64_of_float64 f = v"
  by (auto simp: arg_int64_def split: val.splits)


subsection \<open>Dispatch\<close>

lemma Run_dispatch:
  "Run E k d w =
     (if Method d = ''CreateBlockChain'' then
        (if bcName k \<noteq> ''xuper'' then (Return (Some ErrPermissionDenied), w)
         else runCreateBlockChain E k d w)
      else if Method d = ''UpdateMaxBlockSize'' then runUpdateMaxBlockSize E k d w
      else if Method d = ''UpdateReservedContract'' then runUpdateReservedContract E k d w
      else if Method d = ''UpdateForbiddenContract'' then runUpdateForbiddenContract E k d w
      else if Method d = ''UpdateBlockChainData'' then runUpdateBlockChainData E k d w
      else if Method d = ''UpdateNewAccountResourceAmount''
        then runUpdateNewAccountResourceAmount E k d w
      else if Method d = ''UpdateIrreversibleSlideWindow''
        then runUpdateIrreversibleSlideWindow E k d w
      else if Method d = ''UpdateGasPrice'' then runUpdateGasPrice E k d w
      else if Method d = ''StopBlockChain'' then
        (if bcName k \<noteq> ''xuper'' then (Return (Some ErrPermissionDenied), w)
         else runStopBlockChain E k d w)
      else (Return (Some ErrMethodNotImplemented), w))"
  by (simp add: Run_def runKernelFuncMap_def rootKernelMap_def kernelRun_def)

lemma Rollback_dispatch:
  "Rollback E k d w =
     (if Method d = ''CreateBlockChain'' then
        (if bcName k \<noteq> ''xuper'' then (Return (Some ErrPermissionDenied), w)
         else rollbackCreateBlockChain E k d w)
      else if Method d = ''UpdateMaxBlockSize'' then rollbackUpdateMaxBlockSize E k d w
      else if Method d = ''UpdateReservedContract'' then rollbackUpdateReservedContract E k d w
      else if Method d = ''UpdateForbiddenContract'' then rollbackUpdateForbiddenContract E k d w
      else if Method d = ''UpdateBlockChainData'' then rollbackUpdateBlockChainData E k d w
      else if Method d = ''UpdateNewAccountResourceAmount''
        then rollbackUpdateNewAccountResourceAmount E k d w
      else if Method d = ''UpdateIrreversibleSlideWindow''
        then rollbackUpdateIrreversibleSlideWindow E k d w
      else if Method d = ''UpdateGasPrice'' then rollbackUpdateGasPrice E k d w
      else if Method d = ''StopBlockChain'' then
        (if bcName k \<noteq> ''xuper'' then (Return (Some ErrPermissionDenied), w)
         else rollbackStopBlockChain E k d w)
      else (Return (Some ErrMethodNotImplemented), w))"
  by (simp add: Rollback_def rollbackKernelFuncMap_def rootKernelMap_def kernelRun_def)

lemma run_table_names:
  "map fst runKernelFuncMap =
     [''CreateBlockChain'', ''UpdateMaxBlockSize'', ''UpdateReservedContract'',
      ''UpdateForbiddenContract'', ''UpdateBlockChainData'', ''UpdateNewAccountResourceAmount'',
      ''UpdateIrreversibleSlideWindow'', ''UpdateGasPrice'', ''StopBlockChain'']"
  by (simp add: runKernelFuncMap_def)

lemma rollback_table_names:
  "map fst rollbackKernelFuncMap =
     [''CreateBlockChain'', ''UpdateMaxBlockSize'', ''UpdateReservedContract'',
      ''UpdateForbiddenContract'', ''UpdateBlockChainData'', ''UpdateNewAccountResourceAmount'',
      ''UpdateIrreversibleSlideWindow'', ''UpdateGasPrice'', ''StopBlockChain'']"
  by (simp add: rollbackKernelFuncMap_def)

text \<open>
  C8. The method names registered in the forward table are exactly the method names
  registered in the rollback table: a name has a forward handler if and only if it has
  a rollback handler.
\<close>

theorem tables_register_same_methods:
  "dom (map_of runKernelFuncMap) = dom (map_of rollbackKernelFuncMap) \<and>
   (\<forall>m. (map_of runKernelFuncMap m = None) = (map_of rollbackKernelFuncMap m = None))"
proof -
  have names: "map fst runKernelFuncMap = map fst rollbackKernelFuncMap"
    by (simp only: run_table_names rollback_table_names)
  have doms: "dom (map_of runKernelFuncMap) = dom (map_of rollbackKernelFuncMap)"
    by (simp only: dom_map_of_conv_image_fst set_map [symmetric] names)
  from doms have "\<And>m. (m \<in> dom (map_of runKernelFuncMap)) = (m \<in> dom (map_of rollbackKernelFuncMap))"
    by simp
  then have "\<And>m. (map_of runKernelFuncMap m = None) = (map_of rollbackKernelFuncMap m = None)"
    by (simp only: domIff) blast
  with doms show ?thesis by blast
qed

text \<open>
  C7. For every descriptor, \<open>Run\<close> and \<open>Rollback\<close> return \<open>ErrMethodNotImplemented\<close> when
  the method name is absent from the respective table, and \<open>ErrPermissionDenied\<close> when
  the method is \<open>CreateBlockChain\<close> or \<open>StopBlockChain\<close> and the kernel's chain is not
  \<open>xuper\<close>. In both cases the world is returned as it was: no handler ran and nothing
  was changed.
\<close>

theorem dispatcher_gates:
  "(map_of runKernelFuncMap (Method d) = None \<longrightarrow>
      Run E k d w = (Return (Some ErrMethodNotImplemented), w)) \<and>
   (map_of rollbackKernelFuncMap (Method d) = None \<longrightarrow>
      Rollback E k d w = (Return (Some ErrMethodNotImplemented), w)) \<and>
   ((Method d = ''CreateBlockChain'' \<or> Method d = ''StopBlockChain'') \<and> bcName k \<noteq> ''xuper'' \<longrightarrow>
      Run E k d w = (Return (Some ErrPermissionDenied), w) \<and>
      Rollback E k d w = (Return (Some ErrPermissionDenied), w))"
proof (intro conjI impI)
  assume "map_of runKernelFuncMap (Method d) = None"
  then show "Run E k d w = (Return (Some ErrMethodNotImplemented), w)"
    by (simp add: Run_def)
next
  assume "map_of rollbackKernelFuncMap (Method d) = None"
  then show "Rollback E k d w = (Return (Some ErrMethodNotImplemented), w)"
    by (simp add: Rollback_def)
next
  assume "(Method d = ''CreateBlockChain'' \<or> Method d = ''StopBlockChain'') \<and> bcName k \<noteq> ''xuper''"
  then show "Run E k d w = (Return (Some ErrPermissionDenied), w)"
    by (auto simp: Run_dispatch)
next
  assume "(Method d = ''CreateBlockChain'' \<or> Method d = ''StopBlockChain'') \<and> bcName k \<noteq> ''xuper''"
  then show "Rollback E k d w = (Return (Some ErrPermissionDenied), w)"
    by (auto simp: Rollback_dispatch)
qed

theorem dispatcher_gates_witness:
  "Run demo_env demo_kernel (demo_desc ''UpdateChainName'' []) demo_world
     = (Return (Some ErrMethodNotImplemented), demo_world) \<and>
   Rollback demo_env demo_kernel (demo_desc ''UpdateChainName'' []) demo_world
     = (Return (Some ErrMethodNotImplemented), demo_world) \<and>
   Run demo_env (demo_kernel\<lparr>bcName := ''side1''\<rparr>)
       (demo_desc ''StopBlockChain'' [(''name'', VString ''side2'')]) demo_world
     = (Return (Some ErrPermissionDenied), demo_world) \<and>
   Rollback demo_env (demo_kernel\<lparr>bcName := ''side1''\<rparr>)
       (demo_desc ''StopBlockChain'' [(''name'', VString ''side2'')]) demo_world
     = (Return (Some ErrPermissionDenied), demo_world)"
  using dispatcher_gates [of "demo_desc ''UpdateChainName'' []" demo_env demo_kernel demo_world]
    dispatcher_gates [of "demo_desc ''StopBlockChain'' [(''name'', VString ''side2'')]" demo_env
      "demo_kernel\<lparr>bcName := ''side1''\<rparr>" demo_world]
  by (simp add: demo_desc_def runKernelFuncMap_def rollbackKernelFuncMap_def)

subsection \<open>Rollback of a creation that never took effect\<close>

text \<open>
  C10. For every \<open>CreateBlockChain\<close> descriptor that passes validation, if the directory
  \<open><datapath>/<name>\<close> does not exist, \<open>rollbackCreateBlockChain\<close> returns nil and leaves
  the world as it was: nothing is moved to the trash directory and the register is not
  asked to unload the chain. Invoking it again therefore gives the same result.
\<close>

theorem rollbackCreateBlockChain_absent:
  "validateCreateBC E k d = Inr (name, data) \<Longrightarrow>
   \<not> PathExists (datapath k @ ''/'' @ name) w \<Longrightarrow>
   rollbackCreateBlockChain E k d w = (Return None, w) \<and>
   rollbackCreateBlockChain E k d (snd (rollbackCreateBlockChain E k d w)) = (Return None, w)"
  by (simp add: rollbackCreateBlockChain_def)

theorem rollbackCreateBlockChain_absent_witness:
  "validateCreateBC demo_env demo_kernel
      (demo_desc ''CreateBlockChain'' [(''name'', VString ''side1''), (''data'', VString ''{}'')])
     = Inr (''side1'', ''{}'') \<and>
   \<not> PathExists (datapath demo_kernel @ ''/'' @ ''side1'') demo_world \<and>
   rollbackCreateBlockChain demo_env demo_kernel
      (demo_desc ''CreateBlockChain'' [(''name'', VString ''side1''), (''data'', VString ''{}'')])
      demo_world
     = (Return None, demo_world)"
proof -
  let ?d = "demo_desc ''CreateBlockChain'' [(''name'', VString ''side1''), (''data'', VString ''{}'')]"
  have v: "validateCreateBC demo_env demo_kernel ?d = Inr (''side1'', ''{}'')"
    by (simp add: validateCreateBC_def demo_desc_def args_of_def demo_env_def)
  have p: "\<not> PathExists (datapath demo_kernel @ ''/'' @ ''side1'') demo_world"
    by (simp add: PathExists_def demo_kernel_def demo_world_def)
  from rollbackCreateBlockChain_absent [OF v p] v p show ?thesis by simp
qed

subsection \<open>Run followed by Rollback\<close>

lemma heads_differ_same [simp]: "\<not> heads_differ a a"
  by (simp add: heads_differ_def)

lemma args_differ_same [simp]: "\<not> args_differ a a"
  by (simp add: args_differ_def)

lemma reserved_inner_same:
  "j \<le> length xs \<Longrightarrow> reserved_inner i (xs ! i) j (drop j xs) = None"
proof (induction "length xs - j" arbitrary: j)
  case 0
  then show ?case by simp
next
  case (Suc n)
  then have "j < length xs" by simp
  then have d: "drop j xs = xs ! j # drop (Suc j) xs" by (simp add: Cons_nth_drop_Suc)
  from Suc have "reserved_inner i (xs ! i) (Suc j) (drop (Suc j) xs) = None" by simp
  then show ?case by (auto simp: d)
qed

lemma reserved_outer_same:
  "i \<le> length xs \<Longrightarrow> reserved_outer i (drop i xs) xs = None"
proof (induction "length xs - i" arbitrary: i)
  case 0
  then show ?case by simp
next
  case (Suc n)
  then have "i < length xs" by simp
  then have d: "drop i xs = xs ! i # drop (Suc i) xs" by (simp add: Cons_nth_drop_Suc)
  from Suc have "reserved_outer (Suc i) (drop (Suc i) xs) xs = None" by simp
  moreover have "reserved_inner i (xs ! i) 0 xs = None"
    using reserved_inner_same [of 0 xs i] by simp
  ultimately show ?case by (simp add: d)
qed

lemma reserved_guard_same: "reserved_outer 0 xs xs = None"
  using reserved_outer_same [of 0 xs] by simp

lemma roundtrip_MaxBlockSize:
  assumes v: "validateUpdateMaxBlockSize k d = None"
    and o: "arg_int64 d ''old_block_size'' = Some (MaxBlockSize (meta w))"
  shows "meta (snd (rollbackUpdateMaxBlockSize E k d (snd (runUpdateMaxBlockSize E k d w)))) = meta w \<and>
    (handles_set k \<longrightarrow>
       fst (runUpdateMaxBlockSize E k d w) = Return None \<and>
       fst (rollbackUpdateMaxBlockSize E k d w') = Return None \<and>
       arg_int64 d ''old_block_size''
         = Some (MaxBlockSize (meta (snd (rollbackUpdateMaxBlockSize E k d w')))))"
proof -
  from v have "check_float_args ''miss argument in contact: %s'' d
      [''new_block_size'', ''old_block_size''] = None"
    by (simp add: validateUpdateMaxBlockSize_def)
  from check_float_args_VFloat [OF this, of "''new_block_size''"]
  obtain nf where n: "Args d ''new_block_size'' = VFloat nf" by auto
  from arg_int64_SomeD [OF o] obtain pf where p: "Args d ''old_block_size'' = VFloat pf"
    and e: "int64_of_float64 pf = MaxBlockSize (meta w)" by auto
  show ?thesis
    using v n p e
    by (auto simp: runUpdateMaxBlockSize_def rollbackUpdateMaxBlockSize_def UpdateMaxBlockSize_def
        handles_set_def arg_int64_def Let_def split: option.splits)
qed

lemma roundtrip_IrreversibleSlideWindow:
  assumes v: "validateUpdateIrreversibleSlideWindow k d = None"
    and o: "arg_int64 d ''old_irreversible_slide_window'' = Some (IrreversibleSlideWindow (meta w))"
  shows "meta (snd (rollbackUpdateIrreversibleSlideWindow E k d
             (snd (runUpdateIrreversibleSlideWindow E k d w)))) = meta w \<and>
    (handles_set k \<longrightarrow>
       fst (runUpdateIrreversibleSlideWindow E k d w) = Return None \<and>
       fst (rollbackUpdateIrreversibleSlideWindow E k d w') = Return None \<and>
       arg_int64 d ''old_irreversible_slide_window''
         = Some (IrreversibleSlideWindow (meta (snd (rollbackUpdateIrreversibleSlideWindow E k d w')))))"
proof -
  from v have "check_float_args ''miss argument in contact: %s'' d
      [''new_irreversible_slide_window'', ''old_irreversible_slide_window''] = None"
    by (simp add: validateUpdateIrreversibleSlideWindow_def)
  from check_float_args_VFloat [OF this, of "''new_irreversible_slide_window''"]
  obtain nf where n: "Args d ''new_irreversible_slide_window'' = VFloat nf" by auto
  from arg_int64_SomeD [OF o] obtain pf
    where p: "Args d ''old_irreversible_slide_window'' = VFloat pf"
    and e: "int64_of_float64 pf = IrreversibleSlideWindow (meta w)" by auto
  show ?thesis
    using v n p e
    by (auto simp: runUpdateIrreversibleSlideWindow_def rollbackUpdateIrreversibleSlideWindow_def
        UpdateIrreversibleSlideWindow_def handles_set_def arg_int64_def Let_def
        split: option.splits)
qed

lemma roundtrip_NewAccountResourceAmount:
  assumes v: "validateUpdateNewAccountResourceAmount k d = None"
    and o: "arg_int64 d ''old_new_account_resource_amount''
              = Some (NewAccountResourceAmount (meta w))"
  shows "meta (snd (rollbackUpdateNewAccountResourceAmount E k d
             (snd (runUpdateNewAccountResourceAmount E k d w)))) = meta w \<and>
    (handles_set k \<longrightarrow>
       fst (runUpdateNewAccountResourceAmount E k d w) = Return None \<and>
       fst (rollbackUpdateNewAccountResourceAmount E k d w') = Return None \<and>
       arg_int64 d ''old_new_account_resource_amount''
         = Some (NewAccountResourceAmount
                   (meta (snd (rollbackUpdateNewAccountResourceAmount E k d w')))))"
proof -
  from v have "check_float_args ''miss argument in contract: %s'' d
      [''new_new_account_resource_amount'', ''old_new_account_resource_amount''] = None"
    by (simp add: validateUpdateNewAccountResourceAmount_def)
  from check_float_args_VFloat [OF this, of "''new_new_account_resource_amount''"]
  obtain nf where n: "Args d ''new_new_account_resource_amount'' = VFloat nf" by auto
  from arg_int64_SomeD [OF o] obtain pf
    where p: "Args d ''old_new_account_resource_amount'' = VFloat pf"
    and e: "int64_of_float64 pf = NewAccountResourceAmount (meta w)" by auto
  show ?thesis
    using v n p e
    by (auto simp: runUpdateNewAccountResourceAmount_def rollbackUpdateNewAccountResourceAmount_def
        UpdateNewAccountResourceAmount_def handles_set_def arg_int64_def Let_def
        split: option.splits)
qed

lemma roundtrip_GasPrice:
  assumes n: "is_Inr (validateUpdateGasPrice E k d ''new_gas_price'')"
    and o: "validateUpdateGasPrice E k d ''old_gas_price'' = Inr (GasPrice (meta w))"
  shows "meta (snd (rollbackUpdateGasPrice E k d (snd (runUpdateGasPrice E k d w)))) = meta w \<and>
    (handles_set k \<longrightarrow>
       fst (runUpdateGasPrice E k d w) = Return None \<and>
       fst (rollbackUpdateGasPrice E k d w') = Return None \<and>
       validateUpdateGasPrice E k d ''old_gas_price''
         = Inr (GasPrice (meta (snd (rollbackUpdateGasPrice E k d w')))))"
  using n o
  by (auto simp: runUpdateGasPrice_def rollbackUpdateGasPrice_def UpdateGasPrice_def
      handles_set_def is_Inr_def split: option.splits sum.splits)

lemma roundtrip_ForbiddenContract:
  assumes n: "is_Inr (validateUpdateForbiddenContract E k d ''new_forbidden_contract'')"
    and o: "validateUpdateForbiddenContract E k d ''old_forbidden_contract''
              = Inr (ForbiddenContract (meta w))"
  shows "meta (snd (rollbackUpdateForbiddenContract E k d
             (snd (runUpdateForbiddenContract E k d w)))) = meta w \<and>
    (handles_set k \<longrightarrow>
       fst (runUpdateForbiddenContract E k d w) = Return None \<and>
       fst (rollbackUpdateForbiddenContract E k d w') = Return None \<and>
       validateUpdateForbiddenContract E k d ''old_forbidden_contract''
         = Inr (ForbiddenContract (meta (snd (rollbackUpdateForbiddenContract E k d w')))))"
  using n o
  by (auto simp: runUpdateForbiddenContract_def rollbackUpdateForbiddenContract_def
      UpdateForbiddenContract_def handles_set_def is_Inr_def split: option.splits sum.splits)

lemma roundtrip_ReservedContract:
  assumes n: "is_Inr (validateUpdateReservedContract E k d ''new_reserved_contracts'')"
    and o: "validateUpdateReservedContract E k d ''old_reserved_contracts''
              = Inr (ReservedContracts (meta w))"
  shows "meta (snd (rollbackUpdateReservedContract E k d
             (snd (runUpdateReservedContract E k d w)))) = meta w \<and>
    (handles_set k \<longrightarrow>
       fst (runUpdateReservedContract E k d w) = Return None \<and>
       fst (rollbackUpdateReservedContract E k d w') = Return None \<and>
       validateUpdateReservedContract E k d ''old_reserved_contracts''
         = Inr (ReservedContracts (meta (snd (rollbackUpdateReservedContract E k d w')))))"
  using n o
  by (auto simp: runUpdateReservedContract_def rollbackUpdateReservedContract_def
      UpdateReservedContracts_def handles_set_def is_Inr_def reserved_guard_same
      split: option.splits sum.splits)

text \<open>
  C9. For every parameter-update method and every descriptor that passes validation and
  whose \<open>old_X\<close> equals the live value of the state meta, \<open>Run\<close> followed by \<open>Rollback\<close>
  leaves the state meta as it was before \<open>Run\<close>. The rollback handler writes \<open>old_X\<close>
  without comparing: from any world \<open>w'\<close> it returns nil and leaves \<open>old_X\<close> as the live
  value (when the handles of the context are set; then \<open>Run\<close> returns nil as well).
\<close>

theorem run_then_rollback_restores:
  assumes m: "is_parameter_update (Method d)"
    and v: "passes_validation E k d"
    and o: "old_equals_live E k d w"
  shows "meta (snd (Rollback E k d (snd (Run E k d w)))) = meta w \<and>
    (handles_set k \<longrightarrow>
       fst (Run E k d w) = Return None \<and>
       fst (Rollback E k d w') = Return None \<and>
       old_equals_live E k d (snd (Rollback E k d w')))"
proof -
  from m consider
      (mbs) "Method d = ''UpdateMaxBlockSize''"
    | (isw) "Method d = ''UpdateIrreversibleSlideWindow''"
    | (nar) "Method d = ''UpdateNewAccountResourceAmount''"
    | (gas) "Method d = ''UpdateGasPrice''"
    | (fbd) "Method d = ''UpdateForbiddenContract''"
    | (rsv) "Method d = ''UpdateReservedContract''"
    by (auto simp: is_parameter_update_def)
  then show ?thesis
  proof cases
    case mbs
    with v o roundtrip_MaxBlockSize [of k d w E w'] show ?thesis
      by (simp add: Run_dispatch Rollback_dispatch passes_validation_def old_equals_live_def)
  next
    case isw
    with v o roundtrip_IrreversibleSlideWindow [of k d w E w'] show ?thesis
      by (simp add: Run_dispatch Rollback_dispatch passes_validation_def old_equals_live_def)
  next
    case nar
    with v o roundtrip_NewAccountResourceAmount [of k d w E w'] show ?thesis
      by (simp add: Run_dispatch Rollback_dispatch passes_validation_def old_equals_live_def)
  next
    case gas
    with v o roundtrip_GasPrice [of E k d w w'] show ?thesis
      by (simp add: Run_dispatch Rollback_dispatch passes_validation_def old_equals_live_def)
  next
    case fbd
    with v o roundtrip_ForbiddenContract [of E k d w w'] show ?thesis
      by (simp add: Run_dispatch Rollback_dispatch passes_validation_def old_equals_live_def)
  next
    case rsv
    with v o roundtrip_ReservedContract [of E k d w w'] show ?thesis
      by (simp add: Run_dispatch Rollback_dispatch passes_validation_def old_equals_live_def)
  qed
qed

theorem run_then_rollback_restores_witness:
  "is_parameter_update ''UpdateGasPrice'' \<and>
   passes_validation demo_env demo_kernel
     (demo_desc ''UpdateGasPrice''
        [(''old_gas_price'', VMap [(''cpu_rate'', VFloat 1), (''mem_rate'', VFloat 1),
                                   (''disk_rate'', VFloat 1), (''xfee_rate'', VFloat 1)]),
         (''new_gas_price'', VMap [(''cpu_rate'', VFloat 2), (''mem_rate'', VFloat 2),
                                   (''disk_rate'', VFloat 2), (''xfee_rate'', VFloat 2)])]) \<and>
   handles_set demo_kernel \<and>
   fst (Run demo_env demo_kernel
     (demo_desc ''UpdateGasPrice''
        [(''old_gas_price'', VMap [(''cpu_rate'', VFloat 1), (''mem_rate'', VFloat 1),
                                   (''disk_rate'', VFloat 1), (''xfee_rate'', VFloat 1)]),
         (''new_gas_price'', VMap [(''cpu_rate'', VFloat 2), (''mem_rate'', VFloat 2),
                                   (''disk_rate'', VFloat 2), (''xfee_rate'', VFloat 2)])])
     demo_world) = Return None \<and>
   meta (snd (Rollback demo_env demo_kernel
     (demo_desc ''UpdateGasPrice''
        [(''old_gas_price'', VMap [(''cpu_rate'', VFloat 1), (''mem_rate'', VFloat 1),
                                   (''disk_rate'', VFloat 1), (''xfee_rate'', VFloat 1)]),
         (''new_gas_price'', VMap [(''cpu_rate'', VFloat 2), (''mem_rate'', VFloat 2),
                                   (''disk_rate'', VFloat 2), (''xfee_rate'', VFloat 2)])])
     (snd (Run demo_env demo_kernel
       (demo_desc ''UpdateGasPrice''
          [(''old_gas_price'', VMap [(''cpu_rate'', VFloat 1), (''mem_rate'', VFloat 1),
                                     (''disk_rate'', VFloat 1), (''xfee_rate'', VFloat 1)]),
           (''new_gas_price'', VMap [(''cpu_rate'', VFloat 2), (''mem_rate'', VFloat 2),
                                     (''disk_rate'', VFloat 2), (''xfee_rate'', VFloat 2)])])
       demo_world)))) = meta demo_world"
proof -
  let ?d = "demo_desc ''UpdateGasPrice''
        [(''old_gas_price'', VMap [(''cpu_rate'', VFloat 1), (''mem_rate'', VFloat 1),
                                   (''disk_rate'', VFloat 1), (''xfee_rate'', VFloat 1)]),
         (''new_gas_price'', VMap [(''cpu_rate'', VFloat 2), (''mem_rate'', VFloat 2),
                                   (''disk_rate'', VFloat 2), (''xfee_rate'', VFloat 2)])]"
  have md: "Method ?d = ''UpdateGasPrice''" by (simp add: demo_desc_def)
  have m: "is_parameter_update (Method ?d)" by (simp add: md is_parameter_update_def)
  have vo: "validateUpdateGasPrice demo_env demo_kernel ?d ''old_gas_price''
              = Inr \<lparr>CpuRate = 1, MemRate = 1, DiskRate = 1, XfeeRate = 1\<rparr>"
    by (simp add: validateUpdateGasPrice_def demo_desc_def args_of_def demo_env_def
        demo_Decode_GasPrice_def rate_of_def int64_of_float64_def)
  have vn: "validateUpdateGasPrice demo_env demo_kernel ?d ''new_gas_price''
              = Inr \<lparr>CpuRate = 2, MemRate = 2, DiskRate = 2, XfeeRate = 2\<rparr>"
    by (simp add: validateUpdateGasPrice_def demo_desc_def args_of_def demo_env_def
        demo_Decode_GasPrice_def rate_of_def int64_of_float64_def)
  have v: "passes_validation demo_env demo_kernel ?d"
    by (simp add: passes_validation_def md vo vn is_Inr_def)
  have o: "old_equals_live demo_env demo_kernel ?d demo_world"
    by (simp add: old_equals_live_def md vo demo_world_def demo_meta_def)
  have h: "handles_set demo_kernel" by (simp add: handles_set_def demo_kernel_def)
  from run_then_rollback_restores [OF m v o, of demo_world] m v h md show ?thesis by simp
qed

subsection \<open>Which errors the forward handlers return\<close>




















subsection \<open>What the validators read and change\<close>

lemma evict_outputs_fs: "fs (evict_outputs E txid i bs w) = fs w"
  by (induction bs arbitrary: i w) (simp_all add: BucketCacheDelete_def)

lemma evict_outputs_register_log: "register_log (evict_outputs E txid i bs w) = register_log w"
  by (induction bs arbitrary: i w) (simp_all add: BucketCacheDelete_def)

lemma evict_outputs_meta: "meta (evict_outputs E txid i bs w) = meta w"
  by (induction bs arbitrary: i w) (simp_all add: BucketCacheDelete_def)

lemma evict_outputs_ledger_txs: "ledger_txs (evict_outputs E txid i bs w) = ledger_txs w"
  by (induction bs arbitrary: i w) (simp_all add: BucketCacheDelete_def)

lemma evict_outputs_ledger_nofee: "ledger_nofee (evict_outputs E txid i bs w) = ledger_nofee w"
  by (induction bs arbitrary: i w) (simp_all add: BucketCacheDelete_def)

lemma evict_outputs_ledger_rewrites:
  "ledger_rewrites (evict_outputs E txid i bs w) = ledger_rewrites w"
  by (induction bs arbitrary: i w) (simp_all add: BucketCacheDelete_def)

lemma evict_outputs_cache: "bucket_cache (evict_outputs E txid i bs w) \<subseteq> bucket_cache w"
proof (induction bs arbitrary: i w)
  case Nil
  show ?case by simp
next
  case (Cons b bs)
  have "bucket_cache (evict_outputs E txid (Suc i) bs (BucketCacheDelete b (MakeVersion E txid i) w))
          \<subseteq> bucket_cache (BucketCacheDelete b (MakeVersion E txid i) w)"
    by (rule Cons.IH)
  also have "\<dots> \<subseteq> bucket_cache w" by (simp add: BucketCacheDelete_def)
  finally show ?case by simp
qed

lemmas evict_outputs_frame = evict_outputs_fs evict_outputs_register_log evict_outputs_meta
  evict_outputs_ledger_txs evict_outputs_ledger_nofee evict_outputs_ledger_rewrites
  evict_outputs_cache

lemma validate_rewrite_frame:
  "fs (snd (validateUpdateBlockChainData E k d w)) = fs w \<and>
   register_log (snd (validateUpdateBlockChainData E k d w)) = register_log w \<and>
   meta (snd (validateUpdateBlockChainData E k d w)) = meta w \<and>
   ledger_txs (snd (validateUpdateBlockChainData E k d w)) = ledger_txs w \<and>
   ledger_nofee (snd (validateUpdateBlockChainData E k d w)) = ledger_nofee w \<and>
   ledger_rewrites (snd (validateUpdateBlockChainData E k d w)) = ledger_rewrites w \<and>
   bucket_cache (snd (validateUpdateBlockChainData E k d w)) \<subseteq> bucket_cache w"
  by (simp add: validateUpdateBlockChainData_def Let_def evict_outputs_frame
      split: val.splits sum.splits option.splits prod.splits)

lemma evict_outputs_cache_eq:
  "bucket_cache (evict_outputs E txid i bs w)
     = bucket_cache w - {(bs ! j, MakeVersion E txid (i + j)) | j. j < length bs}"
proof (induction bs arbitrary: i w)
  case Nil
  show ?case by simp
next
  case (Cons b bs)
  have split: "{((b # bs) ! j, MakeVersion E txid (i + j)) | j. j < length (b # bs)}
      = insert (b, MakeVersion E txid i)
          {(bs ! j, MakeVersion E txid (Suc i + j)) | j. j < length bs}"
  proof (intro set_eqI iffI)
    fix x
    assume "x \<in> {((b # bs) ! j, MakeVersion E txid (i + j)) | j. j < length (b # bs)}"
    then obtain j where j: "j < Suc (length bs)"
      and x: "x = ((b # bs) ! j, MakeVersion E txid (i + j))"
      by auto
    show "x \<in> insert (b, MakeVersion E txid i)
          {(bs ! j, MakeVersion E txid (Suc i + j)) | j. j < length bs}"
    proof (cases j)
      case 0
      with x show ?thesis by simp
    next
      case (Suc m)
      with j x have "m < length bs" "x = (bs ! m, MakeVersion E txid (Suc i + m))" by simp_all
      then show ?thesis by blast
    qed
  next
    fix x
    assume "x \<in> insert (b, MakeVersion E txid i)
          {(bs ! j, MakeVersion E txid (Suc i + j)) | j. j < length bs}"
    then consider "x = (b, MakeVersion E txid i)"
      | m where "m < length bs" "x = (bs ! m, MakeVersion E txid (Suc i + m))"
      by auto
    then show "x \<in> {((b # bs) ! j, MakeVersion E txid (i + j)) | j. j < length (b # bs)}"
    proof cases
      case 1
      then have "0 < length (b # bs) \<and> x = ((b # bs) ! 0, MakeVersion E txid (i + 0))" by simp
      then show ?thesis by blast
    next
      case 2
      then have "Suc m < length (b # bs) \<and>
          x = ((b # bs) ! Suc m, MakeVersion E txid (i + Suc m))"
        by simp
      then show ?thesis by blast
    qed
  qed
  have "bucket_cache (evict_outputs E txid i (b # bs) w)
      = bucket_cache (BucketCacheDelete b (MakeVersion E txid i) w)
          - {(bs ! j, MakeVersion E txid (Suc i + j)) | j. j < length bs}"
    by (simp add: Cons.IH)
  also have "\<dots> = bucket_cache w - insert (b, MakeVersion E txid i)
          {(bs ! j, MakeVersion E txid (Suc i + j)) | j. j < length bs}"
    by (auto simp: BucketCacheDelete_def)
  finally show ?case by (simp only: split)
qed

lemma evict_outputs_world:
  "evict_outputs E txid i bs w = w\<lparr>bucket_cache := bucket_cache (evict_outputs E txid i bs w)\<rparr>"
  by (rule world.equality)
     (simp_all add: evict_outputs_fs evict_outputs_register_log evict_outputs_meta
        evict_outputs_ledger_txs evict_outputs_ledger_nofee evict_outputs_ledger_rewrites)

lemma evict_outputs_exact:
  "evict_outputs E txid 0 bs w
     = w\<lparr>bucket_cache := bucket_cache w - {(bs ! j, MakeVersion E txid j) | j. j < length bs}\<rparr>"
  using evict_outputs_world [of E txid 0 bs w] evict_outputs_cache_eq [of E txid 0 bs w]
  by simp

lemma validate_rewrite_evicts:
  assumes "Args d ''txid'' = VString txid" "Args d ''publicKey'' = VString publicKey"
    "Args d ''sign'' = VString sign"
    "CreateCryptoClientFromJSONPublicKey E publicKey = Inr xcc"
    "GetEcdsaPublicKeyFromJsonStr xcc publicKey = Inr ecdsaKey"
    "fst (VerifyAddressUsingPublicKey xcc (ModifyBlockAddr (kernelConfig k)) ecdsaKey)"
    "hex_DecodeString E sign = Inr bytesign" "hex_DecodeString E txid = Inr rawTxid"
    "ctx k = Some c" "LedgerObj c" "UtxoMeta c" "ledger_txs w rawTxid = Some tx"
  shows "snd (validateUpdateBlockChainData E k d w)
     = w\<lparr>bucket_cache := bucket_cache w -
          {(TxOutputsExt tx ! j, MakeVersion E (Txid tx) j) | j. j < length (TxOutputsExt tx)}\<rparr>"
  using assms
  by (simp add: validateUpdateBlockChainData_def QueryTransaction_def Let_def
      evict_outputs_exact [symmetric] split: sum.splits prod.splits)

lemma validate_rewrite_only_evicts:
  "snd (validateUpdateBlockChainData E k d w) = w \<or>
   (\<exists>rawTxid tx. hex_DecodeString E (as_string (Args d ''txid'')) = Inr rawTxid \<and>
      ledger_txs w rawTxid = Some tx \<and>
      snd (validateUpdateBlockChainData E k d w)
        = w\<lparr>bucket_cache := bucket_cache w -
             {(TxOutputsExt tx ! j, MakeVersion E (Txid tx) j) | j. j < length (TxOutputsExt tx)}\<rparr>)"
  by (auto simp: validateUpdateBlockChainData_def QueryTransaction_def Let_def
      evict_outputs_exact [symmetric] split: val.splits sum.splits option.splits prod.splits)

lemma demo_rewrite_validates:
  "validateUpdateBlockChainData demo_env demo_kernel
     (demo_desc ''UpdateBlockChainData''
        [(''txid'', VString ''ab''), (''publicKey'', VString ''pk-admin''),
         (''sign'', VString ''abpk-admin'')])
     demo_world
   = (Return None, demo_world\<lparr>bucket_cache := {}\<rparr>)"
  by (simp add: validateUpdateBlockChainData_def QueryTransaction_def BucketCacheDelete_def
      demo_defs)

text \<open>
  C6, as the claim states it, fails: on the descriptor below
  \<open>validateUpdateBlockChainData\<close> evicts a key from the state-model cache, and its result
  changes with the transactions the ledger holds.
\<close>

theorem validate_rewrite_not_pure:
  "bucket_cache demo_world = {(''bucket1'', ''ab_'')} \<and>
   bucket_cache (snd (validateUpdateBlockChainData demo_env demo_kernel
     (demo_desc ''UpdateBlockChainData''
        [(''txid'', VString ''ab''), (''publicKey'', VString ''pk-admin''),
         (''sign'', VString ''abpk-admin'')])
     demo_world)) = {} \<and>
   fst (validateUpdateBlockChainData demo_env demo_kernel
     (demo_desc ''UpdateBlockChainData''
        [(''txid'', VString ''ab''), (''publicKey'', VString ''pk-admin''),
         (''sign'', VString ''abpk-admin'')])
     demo_world) = Return None \<and>
   fst (validateUpdateBlockChainData demo_env demo_kernel
     (demo_desc ''UpdateBlockChainData''
        [(''txid'', VString ''ab''), (''publicKey'', VString ''pk-admin''),
         (''sign'', VString ''abpk-admin'')])
     (demo_world\<lparr>ledger_txs := (\<lambda>txid. None)\<rparr>)) = Return (Some (Errorf ''Modified tx not exist'' []))"
proof -
  have "fst (validateUpdateBlockChainData demo_env demo_kernel
     (demo_desc ''UpdateBlockChainData''
        [(''txid'', VString ''ab''), (''publicKey'', VString ''pk-admin''),
         (''sign'', VString ''abpk-admin'')])
     (demo_world\<lparr>ledger_txs := (\<lambda>txid. None)\<rparr>)) = Return (Some (Errorf ''Modified tx not exist'' []))"
    by (simp add: validateUpdateBlockChainData_def QueryTransaction_def demo_defs)
  then show ?thesis by (simp add: demo_rewrite_validates) (simp add: demo_world_def)
qed

text \<open>
  C6, amended. Every argument validator other than \<open>validateUpdateBlockChainData\<close> is
  pure: it takes no world and returns none, and its result does not depend on the
  kernel it is called on, only on the descriptor (and the decoders).
  \<open>validateUpdateBlockChainData\<close> queries the ledger for the referenced transaction and,
  once it has found it, deletes from the state-model cache exactly the keys
  \<open>(bucket, MakeVersion (txid, i))\<close> of every extended output \<open>i\<close> of that transaction. It
  changes nothing else: whenever it changes the world at all, the change is that
  eviction for a transaction the ledger holds under the decoded \<open>txid\<close>; the file system,
  the calls on the register, the state meta and the ledger are as before. Of the
  transaction it zeroes \<open>Desc\<close> and the extended outputs only in the value the query
  handed out.
\<close>

theorem validators_frame:
  "validateCreateBC E k d = validateCreateBC E k' d \<and>
   validateUpdateIrreversibleSlideWindow k d = validateUpdateIrreversibleSlideWindow k' d \<and>
   validateUpdateGasPrice E k d n = validateUpdateGasPrice E k' d n \<and>
   validateUpdateMaxBlockSize k d = validateUpdateMaxBlockSize k' d \<and>
   validateUpdateNewAccountResourceAmount k d = validateUpdateNewAccountResourceAmount k' d \<and>
   validateUpdateForbiddenContract E k d n = validateUpdateForbiddenContract E k' d n \<and>
   validateUpdateReservedContract E k d n = validateUpdateReservedContract E k' d n \<and>
   fs (snd (validateUpdateBlockChainData E k d w)) = fs w \<and>
   register_log (snd (validateUpdateBlockChainData E k d w)) = register_log w \<and>
   meta (snd (validateUpdateBlockChainData E k d w)) = meta w \<and>
   ledger_txs (snd (validateUpdateBlockChainData E k d w)) = ledger_txs w \<and>
   ledger_nofee (snd (validateUpdateBlockChainData E k d w)) = ledger_nofee w \<and>
   ledger_rewrites (snd (validateUpdateBlockChainData E k d w)) = ledger_rewrites w \<and>
   bucket_cache (snd (validateUpdateBlockChainData E k d w)) \<subseteq> bucket_cache w \<and>
   (Args d ''txid'' = VString txid \<and> Args d ''publicKey'' = VString publicKey \<and>
    Args d ''sign'' = VString sign \<and>
    CreateCryptoClientFromJSONPublicKey E publicKey = Inr xcc \<and>
    GetEcdsaPublicKeyFromJsonStr xcc publicKey = Inr ecdsaKey \<and>
    fst (VerifyAddressUsingPublicKey xcc (ModifyBlockAddr (kernelConfig k)) ecdsaKey) \<and>
    hex_DecodeString E sign = Inr bytesign \<and> hex_DecodeString E txid = Inr rawTxid \<and>
    ctx k = Some c \<and> LedgerObj c \<and> UtxoMeta c \<and> ledger_txs w rawTxid = Some tx \<longrightarrow>
      snd (validateUpdateBlockChainData E k d w)
        = w\<lparr>bucket_cache := bucket_cache w -
             {(TxOutputsExt tx ! j, MakeVersion E (Txid tx) j) | j. j < length (TxOutputsExt tx)}\<rparr>) \<and>
   (snd (validateUpdateBlockChainData E k d w) = w \<or>
    (\<exists>rawTxid tx. hex_DecodeString E (as_string (Args d ''txid'')) = Inr rawTxid \<and>
       ledger_txs w rawTxid = Some tx \<and>
       snd (validateUpdateBlockChainData E k d w)
         = w\<lparr>bucket_cache := bucket_cache w -
              {(TxOutputsExt tx ! j, MakeVersion E (Txid tx) j) | j. j < length (TxOutputsExt tx)}\<rparr>))"
proof -
  have pure: "validateCreateBC E k d = validateCreateBC E k' d \<and>
      validateUpdateIrreversibleSlideWindow k d = validateUpdateIrreversibleSlideWindow k' d \<and>
      validateUpdateGasPrice E k d n = validateUpdateGasPrice E k' d n \<and>
      validateUpdateMaxBlockSize k d = validateUpdateMaxBlockSize k' d \<and>
      validateUpdateNewAccountResourceAmount k d = validateUpdateNewAccountResourceAmount k' d \<and>
      validateUpdateForbiddenContract E k d n = validateUpdateForbiddenContract E k' d n \<and>
      validateUpdateReservedContract E k d n = validateUpdateReservedContract E k' d n"
    by (simp add: validateCreateBC_def validateUpdateIrreversibleSlideWindow_def
        validateUpdateGasPrice_def validateUpdateMaxBlockSize_def
        validateUpdateNewAccountResourceAmount_def validateUpdateForbiddenContract_def
        validateUpdateReservedContract_def)
  have evicts: "Args d ''txid'' = VString txid \<and> Args d ''publicKey'' = VString publicKey \<and>
    Args d ''sign'' = VString sign \<and>
    CreateCryptoClientFromJSONPublicKey E publicKey = Inr xcc \<and>
    GetEcdsaPublicKeyFromJsonStr xcc publicKey = Inr ecdsaKey \<and>
    fst (VerifyAddressUsingPublicKey xcc (ModifyBlockAddr (kernelConfig k)) ecdsaKey) \<and>
    hex_DecodeString E sign = Inr bytesign \<and> hex_DecodeString E txid = Inr rawTxid \<and>
    ctx k = Some c \<and> LedgerObj c \<and> UtxoMeta c \<and> ledger_txs w rawTxid = Some tx \<longrightarrow>
      snd (validateUpdateBlockChainData E k d w)
        = w\<lparr>bucket_cache := bucket_cache w -
             {(TxOutputsExt tx ! j, MakeVersion E (Txid tx) j) | j. j < length (TxOutputsExt tx)}\<rparr>"
    by (rule impI, elim conjE, rule validate_rewrite_evicts)
  from pure validate_rewrite_frame [of E k d w] evicts validate_rewrite_only_evicts [of E k d w]
  show ?thesis by (simp only: simp_thms)
qed

theorem validators_frame_witness:
  "validateCreateBC demo_env demo_kernel
       (demo_desc ''CreateBlockChain'' [(''name'', VString ''side1''), (''data'', VString ''{}'')])
     = validateCreateBC demo_env (demo_kernel\<lparr>ctx := None\<rparr>)
       (demo_desc ''CreateBlockChain'' [(''name'', VString ''side1''), (''data'', VString ''{}'')]) \<and>
   ledger_txs demo_world ''ab'' = Some demo_target \<and>
   TxOutputsExt demo_target = [''bucket1''] \<and>
   snd (validateUpdateBlockChainData demo_env demo_kernel
     (demo_desc ''UpdateBlockChainData''
        [(''txid'', VString ''ab''), (''publicKey'', VString ''pk-admin''),
         (''sign'', VString ''abpk-admin'')])
     demo_world)
     = demo_world\<lparr>bucket_cache := bucket_cache demo_world
          - {(''bucket1'', MakeVersion demo_env ''ab'' 0)}\<rparr> \<and>
   meta (snd (validateUpdateBlockChainData demo_env demo_kernel
     (demo_desc ''UpdateBlockChainData''
        [(''txid'', VString ''ab''), (''publicKey'', VString ''pk-admin''),
         (''sign'', VString ''abpk-admin'')])
     demo_world)) = meta demo_world"
proof -
  let ?dU = "demo_desc ''UpdateBlockChainData''
        [(''txid'', VString ''ab''), (''publicKey'', VString ''pk-admin''),
         (''sign'', VString ''abpk-admin'')]"
  let ?c = "\<lparr>LedgerObj = True, UtxoMeta = True, Block = Some 7\<rparr>"
  have a: "Args ?dU ''txid'' = VString ''ab'' \<and> Args ?dU ''publicKey'' = VString ''pk-admin'' \<and>
      Args ?dU ''sign'' = VString ''abpk-admin''"
    by (simp add: demo_desc_def args_of_def)
  have x: "CreateCryptoClientFromJSONPublicKey demo_env ''pk-admin'' = Inr demo_client \<and>
      GetEcdsaPublicKeyFromJsonStr demo_client ''pk-admin'' = Inr ''pk-admin'' \<and>
      fst (VerifyAddressUsingPublicKey demo_client (ModifyBlockAddr (kernelConfig demo_kernel))
             ''pk-admin'')"
    by (simp add: demo_env_def demo_client_def demo_kernel_def demo_config_def)
  have hx: "hex_DecodeString demo_env ''abpk-admin'' = Inr ''abpk-admin'' \<and>
      hex_DecodeString demo_env ''ab'' = Inr ''ab''"
    by (simp add: demo_env_def)
  have c: "ctx demo_kernel = Some ?c \<and> LedgerObj ?c \<and> UtxoMeta ?c"
    by (simp add: demo_kernel_def)
  have t: "ledger_txs demo_world ''ab'' = Some demo_target"
    by (simp add: demo_world_def)
  have o: "TxOutputsExt demo_target = [''bucket1''] \<and> Txid demo_target = ''ab''"
    by (simp add: demo_target_def)
  have keys: "{(TxOutputsExt demo_target ! j, MakeVersion demo_env (Txid demo_target) j) | j.
                j < length (TxOutputsExt demo_target)}
              = {(''bucket1'', MakeVersion demo_env ''ab'' 0)}"
    by (auto simp: o)
  note pure = validators_frame [where E = demo_env and k = demo_kernel
      and k' = "demo_kernel\<lparr>ctx := None\<rparr>"
      and d = "demo_desc ''CreateBlockChain'' [(''name'', VString ''side1''), (''data'', VString ''{}'')]",
      THEN conjunct1]
  note frame = validators_frame [where E = demo_env and k = demo_kernel and k' = demo_kernel
      and n = "[]" and w = demo_world and d = ?dU
      and txid = "''ab''" and publicKey = "''pk-admin''" and sign = "''abpk-admin''"
      and xcc = demo_client and ecdsaKey = "''pk-admin''" and bytesign = "''abpk-admin''"
      and rawTxid = "''ab''" and c = ?c and tx = demo_target]
  from frame have m: "meta (snd (validateUpdateBlockChainData demo_env demo_kernel ?dU demo_world))
      = meta demo_world"
    by (elim conjE) assumption
  from frame have "Args ?dU ''txid'' = VString ''ab'' \<and>
      Args ?dU ''publicKey'' = VString ''pk-admin'' \<and>
      Args ?dU ''sign'' = VString ''abpk-admin'' \<and>
      CreateCryptoClientFromJSONPublicKey demo_env ''pk-admin'' = Inr demo_client \<and>
      GetEcdsaPublicKeyFromJsonStr demo_client ''pk-admin'' = Inr ''pk-admin'' \<and>
      fst (VerifyAddressUsingPublicKey demo_client (ModifyBlockAddr (kernelConfig demo_kernel))
             ''pk-admin'') \<and>
      hex_DecodeString demo_env ''abpk-admin'' = Inr ''abpk-admin'' \<and>
      hex_DecodeString demo_env ''ab'' = Inr ''ab'' \<and>
      ctx demo_kernel = Some ?c \<and> LedgerObj ?c \<and> UtxoMeta ?c \<and>
      ledger_txs demo_world ''ab'' = Some demo_target \<longrightarrow>
      snd (validateUpdateBlockChainData demo_env demo_kernel ?dU demo_world)
        = demo_world\<lparr>bucket_cache := bucket_cache demo_world -
             {(TxOutputsExt demo_target ! j, MakeVersion demo_env (Txid demo_target) j) | j.
                j < length (TxOutputsExt demo_target)}\<rparr>"
    by (elim conjE) assumption
  with a x hx c t
  have "snd (validateUpdateBlockChainData demo_env demo_kernel ?dU demo_world)
        = demo_world\<lparr>bucket_cache := bucket_cache demo_world -
             {(TxOutputsExt demo_target ! j, MakeVersion demo_env (Txid demo_target) j) | j.
                j < length (TxOutputsExt demo_target)}\<rparr>"
    by blast
  then have e: "snd (validateUpdateBlockChainData demo_env demo_kernel ?dU demo_world)
        = demo_world\<lparr>bucket_cache := bucket_cache demo_world
            - {(''bucket1'', MakeVersion demo_env ''ab'' 0)}\<rparr>"
    by (simp only: keys)
  from pure t o m e show ?thesis by (intro conjI) (simp_all only:)
qed

subsection \<open>Where the code departs from its guards\<close>

text \<open>
  C1. The signature check of \<open>validateUpdateBlockChainData\<close> returns \<open>err\<close> when
  \<open>err != nil || !ok\<close>; a well-formed signature that does not verify gives
  \<open>(false, nil)\<close>, so the validator returns nil. On the descriptor below the signature
  \<open>ffff\<close> does not verify, the validator returns nil and \<open>runUpdateBlockChainData\<close> has
  the ledger persist the rewrite, where the claim requires a non-nil error and no
  rewrite.
\<close>

theorem invalid_signature_accepted:
  "VerifyECDSA demo_client ''pk-admin'' ''ffff'' ''ab'' = (False, None) \<and>
   fst (validateUpdateBlockChainData demo_env demo_kernel
     (demo_desc ''UpdateBlockChainData''
        [(''txid'', VString ''ab''), (''publicKey'', VString ''pk-admin''),
         (''sign'', VString ''ffff'')])
     demo_world) = Return None \<and>
   runUpdateBlockChainData demo_env demo_kernel
     (demo_desc ''UpdateBlockChainData''
        [(''txid'', VString ''ab''), (''publicKey'', VString ''pk-admin''),
         (''sign'', VString ''ffff'')])
     demo_world
   = (Return None,
      demo_world\<lparr>bucket_cache := {},
                 ledger_rewrites := [(''ab'', ''cd'', ''pk-admin'', ''ffff'', 7)]\<rparr>)"
proof -
  have v: "validateUpdateBlockChainData demo_env demo_kernel
     (demo_desc ''UpdateBlockChainData''
        [(''txid'', VString ''ab''), (''publicKey'', VString ''pk-admin''),
         (''sign'', VString ''ffff'')])
     demo_world = (Return None, demo_world\<lparr>bucket_cache := {}\<rparr>)"
    by (simp add: validateUpdateBlockChainData_def QueryTransaction_def BucketCacheDelete_def
        demo_defs)
  have c: "VerifyECDSA demo_client ''pk-admin'' ''ffff'' ''ab'' = (False, None)"
    by (simp add: demo_client_def)
  have r: "runUpdateBlockChainData demo_env demo_kernel
     (demo_desc ''UpdateBlockChainData''
        [(''txid'', VString ''ab''), (''publicKey'', VString ''pk-admin''),
         (''sign'', VString ''ffff'')])
     demo_world
   = (Return None,
      demo_world\<lparr>bucket_cache := {},
                 ledger_rewrites := [(''ab'', ''cd'', ''pk-admin'', ''ffff'', 7)]\<rparr>)"
    by (simp add: runUpdateBlockChainData_def UpdateBlockChainData_def
        validateUpdateBlockChainData_def QueryTransaction_def BucketCacheDelete_def demo_defs)
  from v c r show ?thesis by simp
qed

theorem invalid_signature_accepted_witness:
  "Run demo_env demo_kernel
     (demo_desc ''UpdateBlockChainData''
        [(''txid'', VString ''ab''), (''publicKey'', VString ''pk-admin''),
         (''sign'', VString ''ffff'')])
     demo_world
   = (Return None,
      demo_world\<lparr>bucket_cache := {},
                 ledger_rewrites := [(''ab'', ''cd'', ''pk-admin'', ''ffff'', 7)]\<rparr>)"
  using invalid_signature_accepted by (simp add: Run_dispatch demo_desc_def)

text \<open>
  C2. \<open>runUpdateNewAccountResourceAmount\<close> builds the state-mismatch error and drops it.
  On the descriptor below \<open>old_new_account_resource_amount\<close> is 1 and the live value is
  3: the handler returns nil and the live value becomes 5, where the claim requires a
  state-mismatch error and an unchanged state meta.
\<close>

theorem new_account_resource_guard_dropped:
  "arg_int64
     (demo_desc ''UpdateNewAccountResourceAmount''
        [(''old_new_account_resource_amount'', VFloat 1),
         (''new_new_account_resource_amount'', VFloat 5)])
     ''old_new_account_resource_amount'' = Some 1 \<and>
   NewAccountResourceAmount (meta demo_world) = 3 \<and>
   Run demo_env demo_kernel
     (demo_desc ''UpdateNewAccountResourceAmount''
        [(''old_new_account_resource_amount'', VFloat 1),
         (''new_new_account_resource_amount'', VFloat 5)])
     demo_world
   = (Return None, demo_world\<lparr>meta := demo_meta\<lparr>NewAccountResourceAmount := 5\<rparr>\<rparr>)"
  by (simp add: Run_dispatch runUpdateNewAccountResourceAmount_def
      validateUpdateNewAccountResourceAmount_def UpdateNewAccountResourceAmount_def
      arg_int64_def int64_of_float64_def demo_defs)

text \<open>
  C4. The guard of \<open>runUpdateReservedContract\<close> compares the old and the live list only
  at the indices both have; their lengths are never compared. On the descriptor below
  \<open>old_reserved_contracts\<close> is empty and the live list has one element: the handler
  returns nil and replaces the live list, where the claim requires a state-mismatch
  error for lists of different length.
\<close>

theorem reserved_guard_ignores_length:
  "validateUpdateReservedContract demo_env demo_kernel
     (demo_desc ''UpdateReservedContract''
        [(''old_reserved_contracts'', VList []),
         (''new_reserved_contracts'', VList [VMap [(''module_name'', VString ''native'')]])])
     ''old_reserved_contracts'' = Inr [] \<and>
   ReservedContracts (meta demo_world) = [demo_contract] \<and>
   Run demo_env demo_kernel
     (demo_desc ''UpdateReservedContract''
        [(''old_reserved_contracts'', VList []),
         (''new_reserved_contracts'', VList [VMap [(''module_name'', VString ''native'')]])])
     demo_world
   = (Return None,
      demo_world\<lparr>meta := demo_meta\<lparr>ReservedContracts :=
        [\<lparr>ModuleName = ''native'', ContractName = [], MethodName = [],
          ReqArgs = Map.empty\<rparr>]\<rparr>\<rparr>)"
  by (simp add: Run_dispatch runUpdateReservedContract_def validateUpdateReservedContract_def
      reserved_params_def UpdateReservedContracts_def demo_defs)

text \<open>
  C5. \<open>CreateBlockChain\<close> removes the directory after a failed genesis-file write,
  ledger open, root-tx generation, root-block format and utxo-vm open, but returns
  without removing it when \<open>GetKVEngineType\<close>, \<open>GetCryptoType\<close> or
  \<open>initPermissionModel\<close> fails. On the data below, which is not JSON,
  \<open>GetKVEngineType\<close> fails: the call returns the error and the directory it created,
  with the genesis file, is still there.
\<close>

theorem create_leaves_directory:
  "\<not> PathExists ''data/side1'' demo_world \<and>
   GetKVEngineType demo_env demo_kernel ''{''
     = Fail (ExternalError ''unexpected end of JSON input'') \<and>
   CreateBlockChain demo_env demo_kernel ''side1'' ''{'' demo_world
     = (Return (Some (ExternalError ''unexpected end of JSON input'')),
        demo_world\<lparr>fs := {''data'', ''data/side1'', ''data/side1/xuper.json''}\<rparr>) \<and>
   PathExists ''data/side1''
     (snd (CreateBlockChain demo_env demo_kernel ''side1'' ''{'' demo_world))"
proof -
  have c: "CreateBlockChain demo_env demo_kernel ''side1'' ''{'' demo_world
     = (Return (Some (ExternalError ''unexpected end of JSON input'')),
        demo_world\<lparr>fs := {''data'', ''data/side1'', ''data/side1/xuper.json''}\<rparr>)"
    by (simp add: CreateBlockChain_def GetKVEngineType_def filepath_Join_def PathExists_def
        demo_defs insert_commute)
  have g: "GetKVEngineType demo_env demo_kernel ''{''
     = Fail (ExternalError ''unexpected end of JSON input'')"
    by (simp add: GetKVEngineType_def demo_env_def)
  have p: "\<not> PathExists ''data/side1'' demo_world"
    by (simp add: PathExists_def demo_world_def)
  from c g p show ?thesis by (simp add: PathExists_def)
qed

subsection \<open>What the guards do compare\<close>

lemma same_request:
  assumes fa: "finite (dom (ReqArgs a))" and fb: "finite (dom (ReqArgs b))"
    and h: "\<not> heads_differ a b" and g: "\<not> args_differ a b"
  shows "a = b"
proof -
  from g have sub: "\<And>key. key \<in> dom (ReqArgs a) \<Longrightarrow> ReqArgs b key = ReqArgs a key"
    by (auto simp: args_differ_def)
  then have "dom (ReqArgs a) \<subseteq> dom (ReqArgs b)" by (auto simp: dom_def)
  moreover from h have "card (dom (ReqArgs a)) = card (dom (ReqArgs b))"
    by (simp add: heads_differ_def)
  ultimately have d: "dom (ReqArgs a) = dom (ReqArgs b)"
    using fb by (simp add: card_subset_eq)
  have "ReqArgs a = ReqArgs b"
  proof
    fix key
    show "ReqArgs a key = ReqArgs b key"
    proof (cases "key \<in> dom (ReqArgs a)")
      case True
      then show ?thesis by (simp add: sub)
    next
      case False
      with d have "key \<notin> dom (ReqArgs b)" by simp
      with False show ?thesis by (simp add: domIff)
    qed
  qed
  with h show ?thesis by (simp add: heads_differ_def)
qed

lemma reserved_inner_NoneD:
  "reserved_inner i vold j rest = None \<Longrightarrow> j \<le> i \<Longrightarrow> i - j < length rest \<Longrightarrow>
   \<not> heads_differ vold (rest ! (i - j)) \<and> \<not> args_differ vold (rest ! (i - j))"
proof (induction rest arbitrary: j)
  case Nil
  then show ?case by simp
next
  case (Cons vorig rest)
  show ?case
  proof (cases "i = j")
    case True
    with Cons.prems show ?thesis by (simp split: if_splits)
  next
    case False
    with Cons.prems have r: "reserved_inner i vold (Suc j) rest = None" and "Suc j \<le> i"
      and "i - Suc j < length rest"
      by auto
    from Cons.IH [OF this] have "\<not> heads_differ vold (rest ! (i - Suc j)) \<and>
        \<not> args_differ vold (rest ! (i - Suc j))" .
    moreover from False Cons.prems have "(vorig # rest) ! (i - j) = rest ! (i - Suc j)"
      by (simp add: nth_Cons')
    ultimately show ?thesis by simp
  qed
qed

lemma reserved_outer_NoneD:
  "reserved_outer i olds origs = None \<Longrightarrow> n < length olds \<Longrightarrow> i + n < length origs \<Longrightarrow>
   \<not> heads_differ (olds ! n) (origs ! (i + n)) \<and> \<not> args_differ (olds ! n) (origs ! (i + n))"
proof (induction olds arbitrary: i n)
  case Nil
  then show ?case by simp
next
  case (Cons vold rest)
  from Cons.prems(1) have inner: "reserved_inner i vold 0 origs = None"
    and outer: "reserved_outer (Suc i) rest origs = None"
    by (auto split: option.splits)
  show ?case
  proof (cases n)
    case 0
    with Cons.prems reserved_inner_NoneD [OF inner, of ] show ?thesis by simp
  next
    case (Suc m)
    with Cons.prems have "m < length rest" "Suc i + m < length origs" by auto
    from Cons.IH [OF outer this] Suc show ?thesis by simp
  qed
qed


lemma heads_differ_sym: "heads_differ a b = heads_differ b a"
  by (auto simp: heads_differ_def)

lemma reject_MaxBlockSize:
  assumes v: "validateUpdateMaxBlockSize k d = None" and h: "handles_set k"
    and o: "arg_int64 d ''old_block_size'' \<noteq> Some (MaxBlockSize (meta w))"
  shows "snd (runUpdateMaxBlockSize E k d w) = w \<and>
         (\<exists>e. fst (runUpdateMaxBlockSize E k d w) = Return (Some e))"
proof -
  from v have c: "check_float_args ''miss argument in contact: %s'' d
      [''new_block_size'', ''old_block_size''] = None"
    by (simp add: validateUpdateMaxBlockSize_def)
  from check_float_args_VFloat [OF c, of "''new_block_size''"]
  obtain nf where n: "Args d ''new_block_size'' = VFloat nf" by auto
  from check_float_args_VFloat [OF c, of "''old_block_size''"]
  obtain pf where p: "Args d ''old_block_size'' = VFloat pf" by auto
  from handles_setD [OF h] obtain c where c: "ctx k = Some c" "LedgerObj c" "UtxoMeta c"
    by blast
  from o p have "int64_of_float64 pf \<noteq> MaxBlockSize (meta w)" by (simp add: arg_int64_def)
  then show ?thesis by (simp add: runUpdateMaxBlockSize_def v n p c)
qed

lemma reject_IrreversibleSlideWindow:
  assumes v: "validateUpdateIrreversibleSlideWindow k d = None" and h: "handles_set k"
    and o: "arg_int64 d ''old_irreversible_slide_window'' \<noteq> Some (IrreversibleSlideWindow (meta w))"
  shows "snd (runUpdateIrreversibleSlideWindow E k d w) = w \<and>
         (\<exists>e. fst (runUpdateIrreversibleSlideWindow E k d w) = Return (Some e))"
proof -
  from v have c: "check_float_args ''miss argument in contact: %s'' d
      [''new_irreversible_slide_window'', ''old_irreversible_slide_window''] = None"
    by (simp add: validateUpdateIrreversibleSlideWindow_def)
  from check_float_args_VFloat [OF c, of "''new_irreversible_slide_window''"]
  obtain nf where n: "Args d ''new_irreversible_slide_window'' = VFloat nf" by auto
  from check_float_args_VFloat [OF c, of "''old_irreversible_slide_window''"]
  obtain pf where p: "Args d ''old_irreversible_slide_window'' = VFloat pf" by auto
  from handles_setD [OF h] obtain c where c: "ctx k = Some c" "LedgerObj c" "UtxoMeta c"
    by blast
  from o p have "int64_of_float64 pf \<noteq> IrreversibleSlideWindow (meta w)"
    by (simp add: arg_int64_def)
  then show ?thesis by (simp add: runUpdateIrreversibleSlideWindow_def v n p c)
qed

lemma reject_GasPrice:
  assumes v: "is_Inr (validateUpdateGasPrice E k d ''old_gas_price'')" and h: "handles_set k"
    and o: "validateUpdateGasPrice E k d ''old_gas_price'' \<noteq> Inr (GasPrice (meta w))"
  shows "snd (runUpdateGasPrice E k d w) = w \<and>
         (\<exists>e. fst (runUpdateGasPrice E k d w) = Return (Some e))"
proof -
  from v obtain p where p: "validateUpdateGasPrice E k d ''old_gas_price'' = Inr p"
    by (auto simp: is_Inr_def split: sum.splits)
  from handles_setD [OF h] obtain c where c: "ctx k = Some c" "LedgerObj c" "UtxoMeta c"
    by blast
  from o p have "p \<noteq> GasPrice (meta w)" by simp
  then have "CpuRate p \<noteq> CpuRate (GasPrice (meta w)) \<or> MemRate p \<noteq> MemRate (GasPrice (meta w)) \<or>
      DiskRate p \<noteq> DiskRate (GasPrice (meta w)) \<or> XfeeRate p \<noteq> XfeeRate (GasPrice (meta w))"
    by (cases p, cases "GasPrice (meta w)") auto
  then show ?thesis by (simp add: runUpdateGasPrice_def p c)
qed

lemma reject_ForbiddenContract:
  assumes v: "validateUpdateForbiddenContract E k d ''old_forbidden_contract'' = Inr p"
    and h: "handles_set k"
    and o: "p \<noteq> ForbiddenContract (meta w)"
    and fp: "finite (dom (ReqArgs p))"
    and fl: "finite (dom (ReqArgs (ForbiddenContract (meta w))))"
  shows "snd (runUpdateForbiddenContract E k d w) = w \<and>
         (\<exists>e. fst (runUpdateForbiddenContract E k d w) = Return (Some e))"
proof -
  from handles_setD [OF h] obtain c where c: "ctx k = Some c" "LedgerObj c" "UtxoMeta c"
    by blast
  from same_request [OF fp fl] o
  have "heads_differ p (ForbiddenContract (meta w)) \<or> args_differ p (ForbiddenContract (meta w))"
    by blast
  then have "heads_differ (ForbiddenContract (meta w)) p \<or> args_differ p (ForbiddenContract (meta w))"
    by (simp add: heads_differ_sym)
  then show ?thesis by (auto simp: runUpdateForbiddenContract_def v c Let_def)
qed

text \<open>
  X1. For \<open>UpdateMaxBlockSize\<close>, \<open>UpdateIrreversibleSlideWindow\<close>, \<open>UpdateGasPrice\<close> and
  \<open>UpdateForbiddenContract\<close>, a descriptor that passes validation and whose \<open>old_X\<close>
  differs from the live value makes \<open>Run\<close> return an error and leave the world as it
  was (the argument maps of the forbidden contract being finite, as Go maps are).
\<close>

theorem guard_rejects_mismatch:
  assumes m: "Method d \<in> set [''UpdateMaxBlockSize'', ''UpdateIrreversibleSlideWindow'',
                               ''UpdateGasPrice'', ''UpdateForbiddenContract'']"
    and v: "passes_validation E k d"
    and h: "handles_set k"
    and o: "\<not> old_equals_live E k d w"
    and fl: "finite (dom (ReqArgs (ForbiddenContract (meta w))))"
    and fp: "\<And>p. validateUpdateForbiddenContract E k d ''old_forbidden_contract'' = Inr p
               \<Longrightarrow> finite (dom (ReqArgs p))"
  shows "snd (Run E k d w) = w \<and> (\<exists>e. fst (Run E k d w) = Return (Some e))"
proof -
  from m consider
      (mbs) "Method d = ''UpdateMaxBlockSize''"
    | (isw) "Method d = ''UpdateIrreversibleSlideWindow''"
    | (gas) "Method d = ''UpdateGasPrice''"
    | (fbd) "Method d = ''UpdateForbiddenContract''"
    by auto
  then show ?thesis
  proof cases
    case mbs
    with v o h reject_MaxBlockSize [of k d w E] show ?thesis
      by (simp add: Run_dispatch passes_validation_def old_equals_live_def)
  next
    case isw
    with v o h reject_IrreversibleSlideWindow [of k d w E] show ?thesis
      by (simp add: Run_dispatch passes_validation_def old_equals_live_def)
  next
    case gas
    with v o h reject_GasPrice [of E k d w] show ?thesis
      by (simp add: Run_dispatch passes_validation_def old_equals_live_def)
  next
    case fbd
    with v obtain p where p: "validateUpdateForbiddenContract E k d ''old_forbidden_contract'' = Inr p"
      by (auto simp: passes_validation_def is_Inr_def split: sum.splits)
    from fbd o p have ne: "p \<noteq> ForbiddenContract (meta w)"
      by (simp add: old_equals_live_def)
    from reject_ForbiddenContract [OF p h ne fp [OF p] fl] fbd show ?thesis
      by (simp add: Run_dispatch)
  qed
qed

theorem guard_rejects_mismatch_witness:
  "passes_validation demo_env demo_kernel
     (demo_desc ''UpdateMaxBlockSize''
        [(''old_block_size'', VFloat 524288), (''new_block_size'', VFloat 2097152)]) \<and>
   handles_set demo_kernel \<and>
   \<not> old_equals_live demo_env demo_kernel
     (demo_desc ''UpdateMaxBlockSize''
        [(''old_block_size'', VFloat 524288), (''new_block_size'', VFloat 2097152)]) demo_world \<and>
   snd (Run demo_env demo_kernel
     (demo_desc ''UpdateMaxBlockSize''
        [(''old_block_size'', VFloat 524288), (''new_block_size'', VFloat 2097152)]) demo_world)
     = demo_world \<and>
   (\<exists>e. fst (Run demo_env demo_kernel
     (demo_desc ''UpdateMaxBlockSize''
        [(''old_block_size'', VFloat 524288), (''new_block_size'', VFloat 2097152)]) demo_world)
     = Return (Some e))"
proof -
  let ?d = "demo_desc ''UpdateMaxBlockSize''
        [(''old_block_size'', VFloat 524288), (''new_block_size'', VFloat 2097152)]"
  have md: "Method ?d = ''UpdateMaxBlockSize''" by (simp add: demo_desc_def)
  have m: "Method ?d \<in> set [''UpdateMaxBlockSize'', ''UpdateIrreversibleSlideWindow'',
                               ''UpdateGasPrice'', ''UpdateForbiddenContract'']"
    by (simp add: md)
  have v: "passes_validation demo_env demo_kernel ?d"
    by (simp add: passes_validation_def md validateUpdateMaxBlockSize_def)
       (simp add: demo_desc_def args_of_def)
  have h: "handles_set demo_kernel" by (simp add: handles_set_def demo_kernel_def)
  have o: "\<not> old_equals_live demo_env demo_kernel ?d demo_world"
    by (simp add: old_equals_live_def md)
       (simp add: arg_int64_def int64_of_float64_def demo_desc_def args_of_def demo_world_def
          demo_meta_def)
  have fl: "finite (dom (ReqArgs (ForbiddenContract (meta demo_world))))"
    by (simp add: demo_world_def demo_meta_def)
  have fp: "\<And>p. validateUpdateForbiddenContract demo_env demo_kernel ?d
                    ''old_forbidden_contract'' = Inr p \<Longrightarrow> finite (dom (ReqArgs p))"
    by (simp add: validateUpdateForbiddenContract_def demo_desc_def args_of_def)
  from guard_rejects_mismatch [OF m v h o fl fp] v h o show ?thesis by simp
qed

text \<open>
  X2. When \<open>runUpdateReservedContract\<close> returns nil, the old list and the live list
  agree at every index both have: the elements there are equal in module, contract and
  method name and in their argument maps (finite, as Go maps are).
\<close>

theorem reserved_guard_compares_common_indices:
  assumes h: "handles_set k"
    and v: "validateUpdateReservedContract E k d ''old_reserved_contracts'' = Inr olds"
    and r: "fst (runUpdateReservedContract E k d w) = Return None"
    and i: "i < length olds" "i < length (ReservedContracts (meta w))"
    and f: "finite (dom (ReqArgs (olds ! i)))"
           "finite (dom (ReqArgs (ReservedContracts (meta w) ! i)))"
  shows "olds ! i = ReservedContracts (meta w) ! i"
proof -
  from handles_setD [OF h] obtain c where c: "ctx k = Some c" "LedgerObj c" "UtxoMeta c"
    by blast
  from r have "reserved_outer 0 olds (ReservedContracts (meta w)) = None"
    by (simp add: runUpdateReservedContract_def v c split: option.splits)
  from reserved_outer_NoneD [OF this i(1)] i(2)
  have "\<not> heads_differ (olds ! i) (ReservedContracts (meta w) ! i) \<and>
        \<not> args_differ (olds ! i) (ReservedContracts (meta w) ! i)" by simp
  with same_request [OF f] show ?thesis by blast
qed

theorem reserved_guard_compares_common_indices_witness:
  "handles_set demo_kernel \<and>
   validateUpdateReservedContract demo_env demo_kernel
     (demo_desc ''UpdateReservedContract''
        [(''old_reserved_contracts'',
            VList [VMap [(''module_name'', VString ''wasm''),
                         (''contract_name'', VString ''identity''),
                         (''method_name'', VString ''verify'')]]),
         (''new_reserved_contracts'', VList [VMap [(''module_name'', VString ''native'')]])])
     ''old_reserved_contracts'' = Inr [demo_contract] \<and>
   fst (runUpdateReservedContract demo_env demo_kernel
     (demo_desc ''UpdateReservedContract''
        [(''old_reserved_contracts'',
            VList [VMap [(''module_name'', VString ''wasm''),
                         (''contract_name'', VString ''identity''),
                         (''method_name'', VString ''verify'')]]),
         (''new_reserved_contracts'', VList [VMap [(''module_name'', VString ''native'')]])])
     demo_world) = Return None \<and>
   [demo_contract] ! 0 = ReservedContracts (meta demo_world) ! 0"
proof -
  let ?d = "demo_desc ''UpdateReservedContract''
        [(''old_reserved_contracts'',
            VList [VMap [(''module_name'', VString ''wasm''),
                         (''contract_name'', VString ''identity''),
                         (''method_name'', VString ''verify'')]]),
         (''new_reserved_contracts'', VList [VMap [(''module_name'', VString ''native'')]])]"
  have h: "handles_set demo_kernel" by (simp add: handles_set_def demo_kernel_def)
  have v: "validateUpdateReservedContract demo_env demo_kernel ?d ''old_reserved_contracts''
             = Inr [demo_contract]"
    by (simp add: validateUpdateReservedContract_def reserved_params_def demo_defs)
  have r: "fst (runUpdateReservedContract demo_env demo_kernel ?d demo_world) = Return None"
    by (simp add: runUpdateReservedContract_def validateUpdateReservedContract_def
        reserved_params_def UpdateReservedContracts_def heads_differ_def args_differ_def
        demo_defs)
  have i: "0 < length [demo_contract]" "0 < length (ReservedContracts (meta demo_world))"
    by (simp_all add: demo_world_def demo_meta_def)
  have f: "finite (dom (ReqArgs ([demo_contract] ! 0)))"
    "finite (dom (ReqArgs (ReservedContracts (meta demo_world) ! 0)))"
    by (simp_all add: demo_world_def demo_meta_def demo_contract_def)
  from reserved_guard_compares_common_indices [OF h v r i f] h v r show ?thesis by simp
qed

end
